theory Spec2Isabelle
  imports Main "HOL-Library.Word" "HOL-Library.Signed_Division"
begin

section \<open>Package base: the metrics sink and the BaseChecker helpers\<close>

text \<open>
  The Prometheus registry is a global object that the watchers write to. It is modelled as an
  append-only trace of emissions: which metric vector was addressed, with which label values,
  and which operation was applied. Every value the program records is a \<^verbatim>\<open>float64\<close>
  that is a whole number (the constants 0 and 1, and conversions \<^verbatim>\<open>float64(x)\<close> of an
  \<^verbatim>\<open>int64\<close>), so a recorded value is kept as the integer it equals.
\<close>

datatype metric =
    BlockLastUpdateTime
  | BlockProcessingDelay
  | BlockProcessingDelayHistogram
  | RPCConnectionAttempts
  | NodeHealthStatus
  | EndpointResponseTime
  | EndpointResponseTimeHistogram

datatype sample = Set int | Inc | Add int | Observe int

type_synonym emission = "metric \<times> string list \<times> sample"
type_synonym sink = "emission list"

record BaseChecker =
  ChainName :: string
  HostName :: string
  ChainId :: string
  NodeVersion :: string
  ProtocolName :: string

definition AddLabelValues :: "'a BaseChecker_scheme \<Rightarrow> string list \<Rightarrow> string list" where
  "AddLabelValues b extraLabels = [ChainName b, HostName b] @ extraLabels"

definition AddLabelValuesWithInfo :: "'a BaseChecker_scheme \<Rightarrow> string list \<Rightarrow> string list" where
  "AddLabelValuesWithInfo b extraLabels =
     [ChainName b, HostName b, ChainId b, NodeVersion b, ProtocolName b] @ extraLabels"

definition RecordConnectionAttempt :: "'a BaseChecker_scheme \<Rightarrow> string \<Rightarrow> bool \<Rightarrow> sink \<Rightarrow> sink" where
  "RecordConnectionAttempt b connectionType success snk =
     (let result = (if success then ''success'' else ''fail'')
      in snk @ [(RPCConnectionAttempts, AddLabelValues b [connectionType, result], Add 1)])"

definition RecordHealthStatus :: "'a BaseChecker_scheme \<Rightarrow> string \<Rightarrow> bool \<Rightarrow> sink \<Rightarrow> sink" where
  "RecordHealthStatus b endpointType healthy snk =
     (let status = (if healthy then 1 else 0)
      in snk @ [(NodeHealthStatus, AddLabelValues b [endpointType], Set status)])"

text \<open>
  The conversion \<^verbatim>\<open>float64(x)\<close> of an integer: a \<^verbatim>\<open>float64\<close> has 53 significant
  bits, so an integer of more bits is rounded to the nearest multiple of the unit \<open>u\<close> of its
  binade, a tie going to the even multiple. The result is again a whole number. \<open>bits n\<close> is
  the number of binary digits of \<open>n\<close>.
\<close>

fun bits :: "nat \<Rightarrow> nat" where
  "bits n = (if n = 0 then 0 else Suc (bits (n div 2)))"

declare bits.simps [simp del]

definition float64 :: "int \<Rightarrow> int" where
  "float64 x =
     (let a = \<bar>x\<bar>; n = bits (nat a)
      in if n \<le> 53 then x
         else let u = 2 ^ (n - 53); q = a div u; r = a mod u
              in sgn x * (u * (if 2 * r < u \<or> (2 * r = u \<and> even q) then q else q + 1)))"

text \<open>
  Go's \<^verbatim>\<open>int\<close> is 64 bits wide on the platforms the monitor is built for, and
  \<^verbatim>\<open>time.Duration\<close> is an \<^verbatim>\<open>int64\<close>, a count of nanoseconds.
  \<^verbatim>\<open>Milliseconds()\<close> is the integer division by \<open>10\<^sup>6\<close>, which in Go truncates
  towards zero.
\<close>

type_synonym int64 = "64 word"

definition Milliseconds :: "int64 \<Rightarrow> int" where
  "Milliseconds d = sint d sdiv 1000000"

definition RecordResponseTime :: "'a BaseChecker_scheme \<Rightarrow> string \<Rightarrow> int64 \<Rightarrow> sink \<Rightarrow> sink" where
  "RecordResponseTime b endpointType duration snk =
     (let milliseconds = float64 (Milliseconds duration)
      in snk @ [(EndpointResponseTime, AddLabelValues b [endpointType], Set milliseconds),
                (EndpointResponseTimeHistogram, AddLabelValues b [endpointType],
                   Observe milliseconds)])"

definition RecordBlockProcessingDelay :: "'a BaseChecker_scheme \<Rightarrow> int \<Rightarrow> sink \<Rightarrow> sink" where
  "RecordBlockProcessingDelay b delaySeconds snk =
     snk @ [(BlockProcessingDelay, AddLabelValues b [], Set delaySeconds),
            (BlockProcessingDelayHistogram, AddLabelValues b [], Observe delaySeconds)]"

definition UpdateLastBlockTime :: "'a BaseChecker_scheme \<Rightarrow> sink \<Rightarrow> sink" where
  "UpdateLastBlockTime b snk =
     snk @ [(BlockLastUpdateTime, AddLabelValuesWithInfo b [], Set 0)]"

text \<open>
  \<^verbatim>\<open>HealthCheckOperation(endpointType, operation)\<close> runs the closure between two clock
  readings. The closure's outcome is an argument of the model: \<open>Inr None\<close> is a \<^verbatim>\<open>nil\<close>
  error, \<open>Inr (Some e)\<close> the error \<open>e\<close>, and \<open>Inl p\<close> a run-time panic raised inside the
  closure, which unwinds through \<^verbatim>\<open>HealthCheckOperation\<close> before anything is recorded.
  \<open>duration\<close> is \<^verbatim>\<open>time.Since(startTime)\<close> in nanoseconds.
\<close>

definition HealthCheckOperation ::
  "'a BaseChecker_scheme \<Rightarrow> string \<Rightarrow> string + string option \<Rightarrow> int64 \<Rightarrow> sink
     \<Rightarrow> string + sink" where
  "HealthCheckOperation b endpointType operation duration snk =
     (case operation of
        Inl p \<Rightarrow> Inl p
      | Inr err \<Rightarrow>
          Inr (RecordResponseTime b endpointType duration
                 (RecordHealthStatus b endpointType (err = None) snk)))"

text \<open>
  The multiplication by \<^verbatim>\<open>time.Second\<close> is one of \<^verbatim>\<open>int64\<close> and wraps around.
  \<^verbatim>\<open>time.NewTicker\<close> panics on a duration that is not positive. A ticker is represented
  by its period.
\<close>

definition Second :: int64 where
  "Second = 1000000000"

definition NewTicker :: "int64 \<Rightarrow> string + int64" where
  "NewTicker d =
     (if sint d \<le> 0 then Inl ''non-positive interval for NewTicker'' else Inr d)"

definition CheckSecondToTicker :: "int64 \<Rightarrow> int64 \<Rightarrow> string + int64" where
  "CheckSecondToTicker checkSecond defaultSeconds =
     (let checkSecond' = (if sint checkSecond \<le> 0 then defaultSeconds else checkSecond)
      in NewTicker (checkSecond' * Second))"


section \<open>The world outside a watcher\<close>

text \<open>
  Besides the metrics sink, the watchers act on client connections and subscriptions that live
  in the RPC libraries. A handle is a number; \<open>conns\<close> lists the client connections that were
  created and not released since, \<open>subs\<close> the subscriptions that were created and not
  unsubscribed since, and \<open>fresh\<close> is the next unused handle. \<open>glog\<close> holds the log lines of
  the controller (the watchers' own log lines are left out).
\<close>

datatype severity = Info | Warning | Error
datatype arg = S string | N nat
type_synonym logline = "severity \<times> string \<times> arg list"

record world =
  sink :: sink
  glog :: "logline list"
  conns :: "nat list"
  subs :: "nat list"
  fresh :: nat

text \<open>
  How a call of \<^verbatim>\<open>subscribe()\<close> ends on a finite sequence of events: it returned, it is
  still blocked in its \<^verbatim>\<open>select\<close> when the sequence is used up, or it panicked.
\<close>

datatype outcome = Returned | Blocked | Panicked string

definition nil_deref :: string where
  "nil_deref = ''invalid memory address or nil pointer dereference''"

section \<open>Package conf\<close>

text \<open>The two structs share their field names, so the fields carry a prefix here.\<close>

record conf_Evm =
  evm_HostName :: string
  evm_ChainName :: string
  evm_ProtocolName :: string
  evm_ChainId :: string
  evm_NodeVersion :: string
  evm_HttpURL :: string
  evm_WsURL :: string
  evm_CheckSecond :: int64

record conf_Cometbft =
  cb_HostName :: string
  cb_ChainName :: string
  cb_ProtocolName :: string
  cb_ChainId :: string
  cb_NodeVersion :: string
  cb_HttpURL :: string
  cb_WsEndpoint :: string
  cb_CheckSecond :: int64

record conf_NodeConfig =
  cfg_Evm :: "conf_Evm option list"
  cfg_Cometbft :: "conf_Cometbft option list"

section \<open>Package cometbft\<close>

text \<open>
  The struct embeds \<^verbatim>\<open>base.BaseChecker\<close>, which is record extension. \<open>client\<close> is the
  handle of the \<^verbatim>\<open>*rpchttp.HTTP\<close>, \<open>None\<close> for \<^verbatim>\<open>nil\<close>. The context is not a field
  of the model: its cancellation arrives as an event of the loop.
\<close>

record CometbftCheckerImpl = BaseChecker +
  Cometbft :: conf_Cometbft
  client :: "nat option"

text \<open>
  The answers of the node and of the client library to the calls of one step:
  \<^verbatim>\<open>rpchttp.New\<close>, \<^verbatim>\<open>Status\<close> (network and version, or an error), \<^verbatim>\<open>Start\<close> and
  \<^verbatim>\<open>Subscribe\<close>.
\<close>

record cb_env =
  new_ok :: bool
  status_res :: "(string \<times> string) option"
  start_ok :: bool
  subscribe_ok :: bool

definition cometbft_updateClient ::
  "cb_env \<Rightarrow> CometbftCheckerImpl \<times> world \<Rightarrow> CometbftCheckerImpl \<times> world" where
  "cometbft_updateClient env cw =
     (case cw of (chain, w) \<Rightarrow>
        if \<not> new_ok env
        then (chain, w\<lparr>sink := RecordConnectionAttempt chain ''http'' False (sink w)\<rparr>)
        else
          let h = fresh w;
              chain1 = chain\<lparr>client := Some h\<rparr>;
              w1 = w\<lparr>conns := conns w @ [h], fresh := Suc h\<rparr>
          in (case status_res env of
                None \<Rightarrow>
                  (chain1, w1\<lparr>sink := RecordConnectionAttempt chain1 ''http'' False (sink w1)\<rparr>)
              | Some (network, version) \<Rightarrow>
                  (chain1\<lparr>Cometbft := (Cometbft chain1)\<lparr>cb_ChainId := network,
                                                           cb_NodeVersion := version\<rparr>,
                          ChainId := network, NodeVersion := version\<rparr>,
                   w1\<lparr>sink := RecordConnectionAttempt chain1 ''http'' True (sink w1)\<rparr>)))"

definition NewCometbftCheckerImpl ::
  "conf_Cometbft \<Rightarrow> cb_env \<Rightarrow> world \<Rightarrow> CometbftCheckerImpl \<times> world" where
  "NewCometbftCheckerImpl conf env w =
     (let conf1 = (if cb_CheckSecond conf = 0 then conf\<lparr>cb_CheckSecond := 5\<rparr> else conf);
          conf2 = (if cb_WsEndpoint conf1 = [] then conf1\<lparr>cb_WsEndpoint := ''/websocket''\<rparr>
                   else conf1);
          checker = \<lparr>ChainName = cb_ChainName conf, HostName = cb_HostName conf,
                     ChainId = cb_ChainId conf, NodeVersion = cb_NodeVersion conf,
                     ProtocolName = cb_ProtocolName conf,
                     Cometbft = conf2, client = None\<rparr>
      in cometbft_updateClient env (checker, w))"

text \<open>
  \<^verbatim>\<open>checkStatus\<close>: the closure calls \<^verbatim>\<open>chain.client.Status\<close>, a nil-pointer
  dereference when there is no client. \<open>st\<close> is the error of the call, if any.
\<close>

definition cometbft_checkStatus ::
  "string option \<Rightarrow> int64 \<Rightarrow> CometbftCheckerImpl \<times> world \<Rightarrow> string + world" where
  "cometbft_checkStatus st duration cw =
     (case cw of (chain, w) \<Rightarrow>
        (case HealthCheckOperation chain ''node_status''
                (if client chain = None then Inl nil_deref else Inr st) duration (sink w) of
           Inl p \<Rightarrow> Inl p
         | Inr snk \<Rightarrow> Inr (w\<lparr>sink := snk\<rparr>)))"

text \<open>The result is the error, if any; without an error the event channel is not nil.\<close>

definition startAndSubscribe ::
  "cb_env \<Rightarrow> CometbftCheckerImpl \<times> world \<Rightarrow> string option \<times> world" where
  "startAndSubscribe env cw =
     (case cw of (chain, w) \<Rightarrow>
        (case client chain of
           None \<Rightarrow> (Some ''[startAndSubscribe] client is nil'', w)
         | Some h \<Rightarrow>
             if \<not> start_ok env then (Some ''client start fail'', w)
             else if \<not> subscribe_ok env then (Some ''subscribe fail'', w)
             else (None, w\<lparr>subs := subs w @ [h]\<rparr>)))"

text \<open>
  The state of a running \<^verbatim>\<open>subscribe()\<close>: the checker, the local \<^verbatim>\<open>eventCh\<close>
  (\<open>True\<close> when it is not nil) and the world.
\<close>

record cb_state =
  cb_chain :: CometbftCheckerImpl
  eventCh :: bool
  cb_world :: world

definition cometbft_ensureSubscription :: "cb_env \<Rightarrow> cb_state \<Rightarrow> string option \<times> cb_state" where
  "cometbft_ensureSubscription env s =
     (case startAndSubscribe env (cb_chain s, cb_world s) of
        (err, w) \<Rightarrow> (err, s\<lparr>eventCh := (err = None), cb_world := w\<rparr>))"

text \<open>
  The events the \<^verbatim>\<open>select\<close> of the loop waits for. An event of the channel carries the
  header time when its payload is an \<^verbatim>\<open>EventDataNewBlockHeader\<close>, the reading of the clock
  (both in seconds, as \<^verbatim>\<open>Unix()\<close> returns them), and the error and duration of the status
  probe that follows. A tick carries the answer of \<^verbatim>\<open>IsRunning\<close> and the answers to the
  calls of a reconnection.
\<close>

datatype cb_event =
    CbCtxDone
  | CbEvent "int64 option" int64 "string option" int64
  | CbTick bool cb_env

text \<open>
  \<^verbatim>\<open>delaySecond := float64(time.Now().Unix() - header.Time.Unix())\<close>: the subtraction is
  one of \<^verbatim>\<open>int64\<close> and wraps around.
\<close>

definition delaySecond :: "int64 \<Rightarrow> int64 \<Rightarrow> int" where
  "delaySecond now headerTime = float64 (sint (now - headerTime))"

definition cometbft_on_event ::
  "int64 option \<Rightarrow> int64 \<Rightarrow> string option \<Rightarrow> int64 \<Rightarrow> cb_state
     \<Rightarrow> outcome option \<times> cb_state" where
  "cometbft_on_event hdr now st duration s =
     (case hdr of
        None \<Rightarrow> (None, s)
      | Some headerTime \<Rightarrow>
          let chain = cb_chain s;
              w1 = (cb_world s)\<lparr>sink := UpdateLastBlockTime chain (sink (cb_world s))\<rparr>;
              w2 = w1\<lparr>sink := RecordBlockProcessingDelay chain (delaySecond now headerTime)
                                 (sink w1)\<rparr>
          in (case cometbft_checkStatus st duration (chain, w2) of
                Inl p \<Rightarrow> (Some (Panicked p), s\<lparr>cb_world := w2\<rparr>)
              | Inr w3 \<Rightarrow> (None, s\<lparr>cb_world := w3\<rparr>)))"

definition cometbft_on_tick :: "bool \<Rightarrow> cb_env \<Rightarrow> cb_state \<Rightarrow> cb_state" where
  "cometbft_on_tick running env s =
     (if client (cb_chain s) = None
      then (case cometbft_updateClient env (cb_chain s, cb_world s) of
              (chain, w) \<Rightarrow>
                snd (cometbft_ensureSubscription env (s\<lparr>cb_chain := chain, cb_world := w\<rparr>)))
      else if \<not> running then snd (cometbft_ensureSubscription env s)
      else s)"

text \<open>
  The \<^verbatim>\<open>for { select { ... } }\<close> loop. A receive from a nil channel never fires, so an
  event of the channel is skipped while \<open>eventCh\<close> is nil.
\<close>

fun cometbft_loop :: "cb_event list \<Rightarrow> cb_state \<Rightarrow> outcome \<times> cb_state" where
  "cometbft_loop [] s = (Blocked, s)"
| "cometbft_loop (CbCtxDone # es) s = (Returned, s)"
| "cometbft_loop (CbEvent hdr now st duration # es) s =
     (if \<not> eventCh s then cometbft_loop es s
      else (case cometbft_on_event hdr now st duration s of
              (Some out, s') \<Rightarrow> (out, s')
            | (None, s') \<Rightarrow> cometbft_loop es s'))"
| "cometbft_loop (CbTick running env # es) s = cometbft_loop es (cometbft_on_tick running env s)"

text \<open>The deferred function of \<^verbatim>\<open>subscribe()\<close>: it runs on every return and on a panic.\<close>

definition cometbft_deferred :: "cb_state \<Rightarrow> cb_state" where
  "cometbft_deferred s =
     (case client (cb_chain s) of
        None \<Rightarrow> s
      | Some h \<Rightarrow>
          s\<lparr>cb_world := (cb_world s)\<lparr>subs := removeAll h (subs (cb_world s)),
                                      conns := removeAll h (conns (cb_world s))\<rparr>\<rparr>)"

text \<open>
  \<^verbatim>\<open>subscribe()\<close>: the ticker is made before the deferred functions are registered, so
  a panic of \<^verbatim>\<open>NewTicker\<close> leaves without them. \<open>env\<close> answers the initial subscription.
\<close>

definition cometbft_subscribe ::
  "cb_env \<Rightarrow> cb_event list \<Rightarrow> CometbftCheckerImpl \<times> world \<Rightarrow> outcome \<times> cb_state" where
  "cometbft_subscribe env evs cw =
     (case cw of (chain, w) \<Rightarrow>
        let s0 = \<lparr>cb_chain = chain, eventCh = False, cb_world = w\<rparr>
        in (case CheckSecondToTicker (cb_CheckSecond (Cometbft chain)) 5 of
              Inl p \<Rightarrow> (Panicked p, s0)
            | Inr ticker \<Rightarrow>
                (case cometbft_ensureSubscription env s0 of
                   (Some err, s1) \<Rightarrow> (Returned, cometbft_deferred s1)
                 | (None, s1) \<Rightarrow>
                     (case cometbft_loop evs s1 of
                        (Blocked, s2) \<Rightarrow> (Blocked, s2)
                      | (out, s2) \<Rightarrow> (out, cometbft_deferred s2)))))"

section \<open>Package evm\<close>

text \<open>
  \<open>http\<close> and \<open>ws\<close> are the handles of the two \<^verbatim>\<open>*ethclient.Client\<close>, \<open>None\<close> for
  \<^verbatim>\<open>nil\<close>.
\<close>

record EvmCheckerImpl = BaseChecker +
  Evm :: conf_Evm
  http :: "nat option"
  ws :: "nat option"

text \<open>
  The answers to the calls of one \<^verbatim>\<open>updateClient()\<close>: the WebSocket dial, the HTTP dial,
  \<^verbatim>\<open>NetworkID\<close> and \<^verbatim>\<open>web3_clientVersion\<close> (\<open>None\<close> for an error).
\<close>

record dial_env =
  ws_dial_ok :: bool
  http_dial_ok :: bool
  network_id :: "string option"
  client_version :: "string option"

text \<open>
  A failed WebSocket dial leaves \<^verbatim>\<open>chain.ws\<close> as it was; a failed HTTP dial assigns the
  \<^verbatim>\<open>nil\<close> that \<^verbatim>\<open>DialContext\<close> returns to \<^verbatim>\<open>chain.http\<close>. Neither branch closes
  the client that is replaced.
\<close>

definition evm_updateClient ::
  "dial_env \<Rightarrow> EvmCheckerImpl \<times> world \<Rightarrow> EvmCheckerImpl \<times> world" where
  "evm_updateClient env cw =
     (case cw of (chain, w) \<Rightarrow>
        let (chain1, w1) =
              (if evm_WsURL (Evm chain) \<noteq> []
               then (if \<not> ws_dial_ok env
                     then (chain, w\<lparr>sink := RecordConnectionAttempt chain ''ws'' False (sink w)\<rparr>)
                     else (chain\<lparr>ws := Some (fresh w)\<rparr>,
                           w\<lparr>sink := RecordConnectionAttempt chain ''ws'' True (sink w),
                             conns := conns w @ [fresh w], fresh := Suc (fresh w)\<rparr>))
               else (chain, w))
        in if evm_HttpURL (Evm chain1) \<noteq> []
           then (if \<not> http_dial_ok env
                 then (chain1\<lparr>http := None\<rparr>,
                       w1\<lparr>sink := RecordConnectionAttempt chain1 ''http'' False (sink w1)\<rparr>)
                 else
                   let chain2 = chain1\<lparr>http := Some (fresh w1)\<rparr>;
                       w2 = w1\<lparr>sink := RecordConnectionAttempt chain2 ''http'' True (sink w1),
                               conns := conns w1 @ [fresh w1], fresh := Suc (fresh w1)\<rparr>;
                       chain3 = (case network_id env of
                                   None \<Rightarrow> chain2
                                 | Some chainID \<Rightarrow>
                                     chain2\<lparr>Evm := (Evm chain2)\<lparr>evm_ChainId := chainID\<rparr>,
                                            ChainId := chainID\<rparr>);
                       chain4 = (case client_version env of
                                   None \<Rightarrow> chain3
                                 | Some nodeVersion \<Rightarrow>
                                     chain3\<lparr>Evm := (Evm chain3)\<lparr>evm_NodeVersion := nodeVersion\<rparr>,
                                            NodeVersion := nodeVersion\<rparr>)
                   in (chain4, w2))
           else (chain1, w1))"

definition NewEvmCheckerImpl :: "conf_Evm \<Rightarrow> dial_env \<Rightarrow> world \<Rightarrow> EvmCheckerImpl \<times> world" where
  "NewEvmCheckerImpl conf env w =
     (let conf1 = (if evm_CheckSecond conf = 0 then conf\<lparr>evm_CheckSecond := 5\<rparr> else conf);
          checker = \<lparr>ChainName = evm_ChainName conf, HostName = evm_HostName conf,
                     ChainId = evm_ChainId conf, NodeVersion = evm_NodeVersion conf,
                     ProtocolName = evm_ProtocolName conf,
                     Evm = conf1, http = None, ws = None\<rparr>
      in evm_updateClient env (checker, w))"

text \<open>
  The state of a running \<^verbatim>\<open>subscribe()\<close>: the checker, the locals \<^verbatim>\<open>sub\<close> (the handle
  of the subscription, \<open>None\<close> for a nil interface) and \<^verbatim>\<open>headers\<close> (\<open>True\<close> when the
  channel is not nil), and the world.
\<close>

record evm_state =
  evm_chain :: EvmCheckerImpl
  sub :: "nat option"
  headers :: bool
  evm_world :: world

text \<open>
  \<^verbatim>\<open>subscribeNewHead\<close> makes the channel first; without a WebSocket client it returns
  three nils; a failed \<^verbatim>\<open>SubscribeNewHead\<close> returns a nil subscription with the channel.
\<close>

definition subscribeNewHead :: "bool \<Rightarrow> evm_state \<Rightarrow> string option \<times> evm_state" where
  "subscribeNewHead sub_ok s =
     (case ws (evm_chain s) of
        None \<Rightarrow> (Some ''websocket connection not available'', s\<lparr>sub := None, headers := False\<rparr>)
      | Some c \<Rightarrow>
          if sub_ok
          then (let w = evm_world s
                in (None, s\<lparr>sub := Some (fresh w), headers := True,
                             evm_world := w\<lparr>subs := subs w @ [fresh w], fresh := Suc (fresh w)\<rparr>\<rparr>))
          else (Some ''subscribe newhead fail'', s\<lparr>sub := None, headers := True\<rparr>))"

text \<open>
  \<^verbatim>\<open>checkGetBlockByNumber\<close>: the closure calls \<^verbatim>\<open>chain.http.BlockNumber\<close>, a
  nil-pointer dereference when there is no HTTP client.
\<close>

definition checkGetBlockByNumber ::
  "string option \<Rightarrow> int64 \<Rightarrow> EvmCheckerImpl \<times> world \<Rightarrow> string + world" where
  "checkGetBlockByNumber res duration cw =
     (case cw of (chain, w) \<Rightarrow>
        (case HealthCheckOperation chain ''block_retrieval''
                (if http chain = None then Inl nil_deref else Inr res) duration (sink w) of
           Inl p \<Rightarrow> Inl p
         | Inr snk \<Rightarrow> Inr (w\<lparr>sink := snk\<rparr>)))"

text \<open>
  The answers to the calls of one reconnection: \<open>dial0\<close> for the \<^verbatim>\<open>updateClient()\<close> that an
  arm of the loop calls itself, and for \<^verbatim>\<open>ensureSubscription()\<close> \<open>dial1\<close> (no WebSocket
  client), \<open>chainid_ok\<close> (the health check \<^verbatim>\<open>ws.ChainID\<close>), \<open>dial2\<close> (after a failed health
  check) and \<open>sub_ok\<close> (\<^verbatim>\<open>SubscribeNewHead\<close>).
\<close>

record evm_env =
  dial0 :: dial_env
  dial1 :: dial_env
  chainid_ok :: bool
  dial2 :: dial_env
  sub_ok :: bool

definition with_client :: "evm_state \<Rightarrow> EvmCheckerImpl \<times> world \<Rightarrow> evm_state" where
  "with_client s cw = s\<lparr>evm_chain := fst cw, evm_world := snd cw\<rparr>"

definition evm_ensureSubscription :: "evm_env \<Rightarrow> evm_state \<Rightarrow> evm_state" where
  "evm_ensureSubscription env s =
     (let s1 = (if ws (evm_chain s) = None
                then with_client s (evm_updateClient (dial1 env) (evm_chain s, evm_world s))
                else s);
          s2 = (if ws (evm_chain s1) \<noteq> None \<and> \<not> chainid_ok env
                then with_client s1 (evm_updateClient (dial2 env) (evm_chain s1, evm_world s1))
                else s1)
      in if ws (evm_chain s2) \<noteq> None \<and> sub s2 = None
         then snd (subscribeNewHead (sub_ok env) s2)
         else s2)"

definition Unsubscribe :: "evm_state \<Rightarrow> evm_state" where
  "Unsubscribe s =
     (case sub s of
        None \<Rightarrow> s
      | Some h \<Rightarrow> s\<lparr>sub := None,
                     evm_world := (evm_world s)\<lparr>subs := removeAll h (subs (evm_world s))\<rparr>\<rparr>)"

text \<open>
  The events of the loop: cancellation; a value from \<^verbatim>\<open>headers\<close> (\<open>None\<close> for a nil
  header, else \<^verbatim>\<open>header.Time\<close>, a \<^verbatim>\<open>uint64\<close> that the code converts to \<^verbatim>\<open>int64\<close>)
  with the clock, the error and duration of the block-number probe and the answers to a
  reconnection; a tick; a value from \<^verbatim>\<open>sub.Err()\<close> (the flag \<^verbatim>\<open>ok\<close> and the error).
  \<open>EvmHealthTick\<close> is a tick of \<^verbatim>\<open>clientHealthCheck\<close>, the goroutine that \<^verbatim>\<open>Start()\<close>
  runs beside the loop; it is interleaved between two iterations of the loop.
\<close>

datatype evm_event =
    EvmCtxDone
  | EvmHeader "int64 option" int64 "string option" int64 evm_env
  | EvmTick evm_env
  | EvmSubErr bool "string option" evm_env
  | EvmHealthTick dial_env

definition evm_reconnect :: "evm_env \<Rightarrow> evm_state \<Rightarrow> evm_state" where
  "evm_reconnect env s =
     (let s1 = Unsubscribe s;
          s2 = with_client s1 (evm_updateClient (dial0 env) (evm_chain s1, evm_world s1))
      in evm_ensureSubscription env s2)"

definition evm_on_header ::
  "int64 option \<Rightarrow> int64 \<Rightarrow> string option \<Rightarrow> int64 \<Rightarrow> evm_env \<Rightarrow> evm_state
     \<Rightarrow> outcome option \<times> evm_state" where
  "evm_on_header hdr now res duration env s =
     (case hdr of
        None \<Rightarrow> (None, evm_reconnect env s)
      | Some headerTime \<Rightarrow>
          let chain = evm_chain s;
              w1 = (evm_world s)\<lparr>sink := UpdateLastBlockTime chain (sink (evm_world s))\<rparr>;
              w2 = w1\<lparr>sink := RecordBlockProcessingDelay chain (delaySecond now headerTime)
                                 (sink w1)\<rparr>
          in (case checkGetBlockByNumber res duration (chain, w2) of
                Inl p \<Rightarrow> (Some (Panicked p), s\<lparr>evm_world := w2\<rparr>)
              | Inr w3 \<Rightarrow> (None, s\<lparr>evm_world := w3\<rparr>)))"

definition evm_step :: "evm_event \<Rightarrow> evm_state \<Rightarrow> outcome option \<times> evm_state" where
  "evm_step e s =
     (case e of
        EvmCtxDone \<Rightarrow> (Some Returned, Unsubscribe s)
      | EvmHeader hdr now res duration env \<Rightarrow>
          if \<not> headers s then (None, s) else evm_on_header hdr now res duration env s
      | EvmTick env \<Rightarrow> (None, evm_ensureSubscription env s)
      | EvmSubErr ok err env \<Rightarrow>
          if \<not> ok \<or> err \<noteq> None then (None, evm_reconnect env s) else (None, s)
      | EvmHealthTick env \<Rightarrow>
          if http (evm_chain s) = None
          then (None, with_client s (evm_updateClient env (evm_chain s, evm_world s)))
          else (None, s))"

text \<open>
  Entering the \<^verbatim>\<open>select\<close> evaluates the channel operand \<^verbatim>\<open>sub.Err()\<close> of its last
  case, before any case is chosen: with a nil \<^verbatim>\<open>sub\<close> this is a nil-pointer dereference.
\<close>

fun evm_loop :: "evm_event list \<Rightarrow> evm_state \<Rightarrow> outcome \<times> evm_state" where
  "evm_loop [] s = (if sub s = None then (Panicked nil_deref, s) else (Blocked, s))"
| "evm_loop (e # es) s =
     (if sub s = None then (Panicked nil_deref, s)
      else (case evm_step e s of
              (Some out, s') \<Rightarrow> (out, s')
            | (None, s') \<Rightarrow> evm_loop es s'))"

text \<open>\<^verbatim>\<open>subscribe()\<close>; \<open>env\<close> answers the initial \<^verbatim>\<open>ensureSubscription()\<close>.\<close>

definition evm_subscribe ::
  "evm_env \<Rightarrow> evm_event list \<Rightarrow> EvmCheckerImpl \<times> world \<Rightarrow> outcome \<times> evm_state" where
  "evm_subscribe env evs cw =
     (case cw of (chain, w) \<Rightarrow>
        let s0 = \<lparr>evm_chain = chain, sub = None, headers = False, evm_world = w\<rparr>
        in (case CheckSecondToTicker (evm_CheckSecond (Evm chain)) 5 of
              Inl p \<Rightarrow> (Panicked p, s0)
            | Inr ticker \<Rightarrow> evm_loop evs (evm_ensureSubscription env s0)))"

section \<open>Package sched\<close>

text \<open>The interface \<^verbatim>\<open>base.CheckerTrait\<close> has two implementations.\<close>

datatype checker = EvmChecker EvmCheckerImpl | CometbftChecker CometbftCheckerImpl

fun GetChainName :: "checker \<Rightarrow> string" where
  "GetChainName (EvmChecker chain) = evm_ChainName (Evm chain)"
| "GetChainName (CometbftChecker chain) = cb_ChainName (Cometbft chain)"

fun GetHostName :: "checker \<Rightarrow> string" where
  "GetHostName (EvmChecker chain) = evm_HostName (Evm chain)"
| "GetHostName (CometbftChecker chain) = cb_HostName (Cometbft chain)"

fun GetChainId :: "checker \<Rightarrow> string" where
  "GetChainId (EvmChecker chain) = evm_ChainId (Evm chain)"
| "GetChainId (CometbftChecker chain) = cb_ChainId (Cometbft chain)"

fun GetNodeVersion :: "checker \<Rightarrow> string" where
  "GetNodeVersion (EvmChecker chain) = evm_NodeVersion (Evm chain)"
| "GetNodeVersion (CometbftChecker chain) = cb_NodeVersion (Cometbft chain)"

fun GetProtocolName :: "checker \<Rightarrow> string" where
  "GetProtocolName (EvmChecker chain) = evm_ProtocolName (Evm chain)"
| "GetProtocolName (CometbftChecker chain) = cb_ProtocolName (Cometbft chain)"

text \<open>
  The goroutines that \<^verbatim>\<open>Start()\<close> launches, each after a \<^verbatim>\<open>wg.Add(1)\<close>: the block
  lifetime updater and one \<^verbatim>\<open>startChecker\<close> per checker (named by its index).
  \<open>cancelled\<close> says whether \<^verbatim>\<open>c.cancel()\<close> was called.
\<close>

datatype task = UpdateBlockLifetimeTask | CheckerTask nat

record Controller =
  checkers :: "checker list"
  conf :: conf_NodeConfig
  stopped :: bool
  cancelled :: bool
  launched :: "task list"

definition glog_add :: "logline \<Rightarrow> world \<Rightarrow> world" where
  "glog_add l w = w\<lparr>glog := glog w @ [l]\<rparr>"

text \<open>
  The two loops of \<^verbatim>\<open>NewController\<close>, with the index \<open>i\<close> of the entry. \<open>envs i\<close> are the
  answers of the node of entry \<open>i\<close> to the \<^verbatim>\<open>updateClient()\<close> of its constructor.
\<close>

fun NewController_evm ::
  "(nat \<Rightarrow> dial_env) \<Rightarrow> nat \<Rightarrow> conf_Evm option list \<Rightarrow> Controller \<times> world \<Rightarrow> Controller \<times> world" where
  "NewController_evm envs i [] cw = cw"
| "NewController_evm envs i (None # rest) cw =
     NewController_evm envs (Suc i) rest
       (fst cw, glog_add (Error, ''EVM config[%d] is nil, skipping'', [N i]) (snd cw))"
| "NewController_evm envs i (Some evmConf # rest) cw =
     (let w1 = glog_add (Info, ''Creating EVM checker for %s (%s)'',
                          [S (evm_HostName evmConf), S (evm_ChainName evmConf)]) (snd cw);
          r = NewEvmCheckerImpl evmConf (envs i) w1
      in NewController_evm envs (Suc i) rest
           ((fst cw)\<lparr>checkers := checkers (fst cw) @ [EvmChecker (fst r)]\<rparr>, snd r))"

fun NewController_cometbft ::
  "(nat \<Rightarrow> cb_env) \<Rightarrow> nat \<Rightarrow> conf_Cometbft option list \<Rightarrow> Controller \<times> world
     \<Rightarrow> Controller \<times> world" where
  "NewController_cometbft envs i [] cw = cw"
| "NewController_cometbft envs i (None # rest) cw =
     NewController_cometbft envs (Suc i) rest
       (fst cw, glog_add (Error, ''CometBFT config[%d] is nil, skipping'', [N i]) (snd cw))"
| "NewController_cometbft envs i (Some cometbftConf # rest) cw =
     (let w1 = glog_add (Info, ''Creating CometBFT checker for %s (%s)'',
                          [S (cb_HostName cometbftConf), S (cb_ChainName cometbftConf)]) (snd cw);
          r = NewCometbftCheckerImpl cometbftConf (envs i) w1
      in NewController_cometbft envs (Suc i) rest
           ((fst cw)\<lparr>checkers := checkers (fst cw) @ [CometbftChecker (fst r)]\<rparr>, snd r))"

text \<open>The configuration is passed by pointer: \<open>None\<close> is a nil pointer.\<close>

definition NewController ::
  "(nat \<Rightarrow> dial_env) \<Rightarrow> (nat \<Rightarrow> cb_env) \<Rightarrow> conf_NodeConfig option \<Rightarrow> world
     \<Rightarrow> string + Controller \<times> world" where
  "NewController evm_envs cb_envs confp w =
     (case confp of
        None \<Rightarrow> Inl nil_deref
      | Some cfg \<Rightarrow>
          let c = \<lparr>checkers = [], conf = cfg, stopped = False, cancelled = False, launched = []\<rparr>;
              cw1 = NewController_evm evm_envs 0 (cfg_Evm cfg) (c, w);
              cw2 = NewController_cometbft cb_envs 0 (cfg_Cometbft cfg) cw1
          in Inr (fst cw2,
                  glog_add (Info, ''Created %d checkers total'', [N (length (checkers (fst cw2)))])
                    (snd cw2)))"

text \<open>
  The body of the ticker case of \<^verbatim>\<open>UpdateBlockLifetime\<close>, once a second. The checkers are
  pointers: \<open>cs\<close> is the list \<^verbatim>\<open>c.checkers\<close> with every checker in its current state.
\<close>

definition UpdateBlockLifetime_tick :: "checker list \<Rightarrow> world \<Rightarrow> world" where
  "UpdateBlockLifetime_tick cs w =
     w\<lparr>sink := sink w @
         map (\<lambda>checker. (BlockLastUpdateTime,
                          [GetChainName checker, GetHostName checker, GetChainId checker,
                           GetNodeVersion checker, GetProtocolName checker], Inc)) cs\<rparr>"

definition IsStopped :: "Controller \<Rightarrow> bool" where
  "IsStopped c = stopped c"

definition Start :: "Controller \<times> world \<Rightarrow> Controller \<times> world" where
  "Start cw =
     (case cw of (c, w) \<Rightarrow>
        if stopped c
        then (c, glog_add (Warning, ''Controller is already stopped, cannot start'', []) w)
        else (c\<lparr>launched := launched c @ [UpdateBlockLifetimeTask] @
                               map CheckerTask [0..<length (checkers c)]\<rparr>,
              glog_add (Info, ''All checkers started'', [])
                (glog_add (Info, ''Starting controller with %d checkers'',
                            [N (length (checkers c))]) w)))"

text \<open>
  \<open>in_time\<close> says whether all goroutines finished within the 30 seconds that \<^verbatim>\<open>Stop()\<close>
  waits for them.
\<close>

definition Stop :: "bool \<Rightarrow> Controller \<times> world \<Rightarrow> Controller \<times> world" where
  "Stop in_time cw =
     (case cw of (c, w) \<Rightarrow>
        if stopped c
        then (c, glog_add (Info, ''Controller is already stopped'', []) w)
        else (c\<lparr>stopped := True, cancelled := True\<rparr>,
              glog_add (if in_time then (Info, ''All checkers stopped successfully'', [])
                        else (Warning, ''Timeout waiting for checkers to stop'', []))
                (glog_add (Info, ''Stopping controller...'', []) w)))"

section \<open>Reading the sink\<close>

text \<open>
  The value of the gauge child of metric \<open>m\<close> with label values \<open>ls\<close> after a trace of
  emissions. A child starts at 0; an observation of a histogram does not touch a gauge.
\<close>

fun apply_sample :: "sample \<Rightarrow> int \<Rightarrow> int" where
  "apply_sample (Set v) x = v"
| "apply_sample Inc x = x + 1"
| "apply_sample (Add v) x = x + v"
| "apply_sample (Observe v) x = x"

fun gauge_value :: "sink \<Rightarrow> metric \<Rightarrow> string list \<Rightarrow> int \<Rightarrow> int" where
  "gauge_value [] m ls x = x"
| "gauge_value ((m', ls', smp) # rest) m ls x =
     gauge_value rest m ls (if m' = m \<and> ls' = ls then apply_sample smp x else x)"

text \<open>An empty world, and the handles a state holds, as lists.\<close>

definition world0 :: world where
  "world0 = \<lparr>sink = [], glog = [], conns = [], subs = [], fresh = 0\<rparr>"

fun held :: "nat option \<Rightarrow> nat list" where
  "held None = []"
| "held (Some h) = [h]"

section \<open>Reading the log and the configuration\<close>

text \<open>
  The log lines with a given format string, the entries of a configuration list that are not
  nil, and the indices of those that are.
\<close>

definition lines_with :: "string \<Rightarrow> world \<Rightarrow> logline list" where
  "lines_with fmt w = filter (\<lambda>l. fst (snd l) = fmt) (glog w)"

definition present :: "'a option list \<Rightarrow> 'a list" where
  "present xs = map the (filter (\<lambda>e. e \<noteq> None) xs)"

definition skipped :: "'a option list \<Rightarrow> nat list" where
  "skipped xs = filter (\<lambda>i. xs ! i = None) [0..<length xs]"

text \<open>The emissions that go to the delay gauge and to the delay histogram.\<close>

definition delay_emissions :: "sink \<Rightarrow> sink" where
  "delay_emissions snk =
     filter (\<lambda>e. fst e = BlockProcessingDelay \<or> fst e = BlockProcessingDelayHistogram) snk"

section \<open>Example nodes\<close>

text \<open>
  The configurations of the two test files of the repository, and answers of the world in
  which every call succeeds (\<open>up\<close>) or every call returns an error (\<open>down\<close>).
\<close>

definition cometbft_test_conf :: conf_Cometbft where
  "cometbft_test_conf =
     \<lparr>cb_HostName = ''test-node-01'', cb_ChainName = ''cosmos'', cb_ProtocolName = [],
      cb_ChainId = ''cosmos'', cb_NodeVersion = [], cb_HttpURL = ''http://1.1.1.1:26657'',
      cb_WsEndpoint = ''/websocket'', cb_CheckSecond = 0\<rparr>"

definition evm_test_conf :: conf_Evm where
  "evm_test_conf =
     \<lparr>evm_HostName = ''ethereum-01'', evm_ChainName = ''ethereum'', evm_ProtocolName = [],
      evm_ChainId = ''1'', evm_NodeVersion = [],
      evm_HttpURL = ''https://mainnet.gateway.tenderly.co'', evm_WsURL = ''wss://0xrpc.io/eth'',
      evm_CheckSecond = 0\<rparr>"

definition cb_up :: cb_env where
  "cb_up = \<lparr>new_ok = True, status_res = Some (''cosmoshub-4'', ''0.38.2''), start_ok = True,
            subscribe_ok = True\<rparr>"

definition cb_down :: cb_env where
  "cb_down = \<lparr>new_ok = False, status_res = None, start_ok = False, subscribe_ok = False\<rparr>"

definition dial_up :: dial_env where
  "dial_up = \<lparr>ws_dial_ok = True, http_dial_ok = True, network_id = Some ''1'',
              client_version = Some ''Geth/v1.13.5''\<rparr>"

definition dial_down :: dial_env where
  "dial_down = \<lparr>ws_dial_ok = False, http_dial_ok = False, network_id = None,
                client_version = None\<rparr>"

definition evm_up :: evm_env where
  "evm_up = \<lparr>dial0 = dial_up, dial1 = dial_up, chainid_ok = True, dial2 = dial_up,
             sub_ok = True\<rparr>"

definition evm_down :: evm_env where
  "evm_down = \<lparr>dial0 = dial_down, dial1 = dial_down, chainid_ok = False, dial2 = dial_down,
               sub_ok = False\<rparr>"

section \<open>Invariants of the two loops\<close>

text \<open>
  In the EVM loop the subscriptions that are open are exactly the one the local \<^verbatim>\<open>sub\<close>
  holds. In the CometBFT loop the clients that are open are exactly the one
  \<^verbatim>\<open>chain.client\<close> holds, and every open subscription belongs to it.
\<close>

definition sub_inv :: "evm_state \<Rightarrow> bool" where
  "sub_inv s = (subs (evm_world s) = held (sub s))"

definition client_inv :: "cb_state \<Rightarrow> bool" where
  "client_inv s =
     (conns (cb_world s) = held (client (cb_chain s)) \<and>
      set (subs (cb_world s)) \<subseteq> set (conns (cb_world s)))"

section \<open>Properties of package base\<close>

lemmas run_defs =
  cometbft_subscribe_def cometbft_ensureSubscription_def startAndSubscribe_def
  cometbft_deferred_def cometbft_on_tick_def cometbft_on_event_def cometbft_checkStatus_def
  cometbft_updateClient_def NewCometbftCheckerImpl_def
  evm_subscribe_def evm_ensureSubscription_def subscribeNewHead_def Unsubscribe_def
  evm_reconnect_def evm_on_header_def evm_step_def checkGetBlockByNumber_def
  evm_updateClient_def NewEvmCheckerImpl_def with_client_def
  HealthCheckOperation_def RecordResponseTime_def RecordHealthStatus_def
  RecordConnectionAttempt_def RecordBlockProcessingDelay_def UpdateLastBlockTime_def
  AddLabelValues_def AddLabelValuesWithInfo_def CheckSecondToTicker_def NewTicker_def
  Second_def delaySecond_def Milliseconds_def world0_def Let_def
  cometbft_test_conf_def evm_test_conf_def cb_up_def cb_down_def dial_up_def dial_down_def
  evm_up_def evm_down_def

lemma sint_mul_Second:
  assumes "0 < sint (cs :: int64)" and "sint cs \<le> 9223372036"
  shows "sint (cs * Second) = sint cs * 1000000000"
proof -
  have "sint (cs * Second) = signed_take_bit 63 (sint cs * sint Second)"
    by (simp add: sint_word_ariths)
  also have "sint Second = 1000000000"
    by (simp add: Second_def)
  also have "signed_take_bit 63 (sint cs * 1000000000) = sint cs * 1000000000"
    using assms by (simp add: signed_take_bit_int_eq_self)
  finally show ?thesis .
qed

text \<open>
  The conversion to \<^verbatim>\<open>float64\<close>: it is exact up to \<open>2\<^sup>5\<^sup>3\<close>, it keeps the sign, it
  moves an \<^verbatim>\<open>int64\<close> by at most 512, and a count of milliseconds is always converted
  exactly.
\<close>

lemma bits_le: "n < 2 ^ k \<Longrightarrow> bits n \<le> k"
proof (induction k arbitrary: n)
  case 0
  then show ?case by (simp add: bits.simps)
next
  case (Suc k)
  then have "n div 2 < 2 ^ k" by simp
  from Suc.IH [OF this] show ?case by (simp add: bits.simps [of n])
qed

lemma bits_gt: "2 ^ k \<le> n \<Longrightarrow> k < bits n"
proof (induction k arbitrary: n)
  case 0
  then show ?case by (simp add: bits.simps [of n])
next
  case (Suc k)
  then have "2 ^ k \<le> n div 2" by simp
  moreover have "0 < (2::nat) ^ Suc k" by simp
  with Suc.prems have "n \<noteq> 0" by linarith
  ultimately show ?case using Suc.IH [of "n div 2"] by (simp add: bits.simps [of n])
qed

lemma bits_eq: "2 ^ k \<le> n \<Longrightarrow> n < 2 ^ Suc k \<Longrightarrow> bits n = Suc k"
  using bits_le [of n "Suc k"] bits_gt [of k n] by simp

lemma bits_lower: "0 < n \<Longrightarrow> 2 ^ (bits n - 1) \<le> n"
proof (induction n rule: bits.induct)
  case (1 n)
  show ?case
  proof (cases "n div 2 = 0")
    case True
    with 1 show ?thesis by (simp add: bits.simps [of n] bits.simps [of 0])
  next
    case False
    then have "2 ^ (bits (n div 2) - 1) \<le> n div 2" using 1 by simp
    moreover have "0 < bits (n div 2)" using False by (simp add: bits.simps [of "n div 2"])
    ultimately have "2 * 2 ^ (bits (n div 2) - 1) \<le> n" by simp
    moreover have "2 * (2::nat) ^ (bits (n div 2) - 1) = 2 ^ bits (n div 2)"
      using \<open>0 < bits (n div 2)\<close> by (cases "bits (n div 2)") simp_all
    ultimately show ?thesis using 1 by (simp add: bits.simps [of n])
  qed
qed

lemma float64_exact:
  assumes "\<bar>x\<bar> \<le> 2 ^ 53"
  shows "float64 x = x"
proof (cases "\<bar>x\<bar> < 2 ^ 53")
  case True
  then have "nat \<bar>x\<bar> < 2 ^ 53" by simp
  then have "bits (nat \<bar>x\<bar>) \<le> 53" by (rule bits_le)
  then show ?thesis by (simp add: float64_def Let_def)
next
  case False
  with assms have a: "\<bar>x\<bar> = 2 ^ 53" by simp
  then have n: "nat \<bar>x\<bar> = 2 ^ 53" by simp
  have "bits (nat \<bar>x\<bar>) \<le> 54" by (rule bits_le) (simp add: n)
  moreover have "53 < bits (nat \<bar>x\<bar>)" by (rule bits_gt) (simp add: n)
  ultimately have "bits (nat \<bar>x\<bar>) = 54" by simp
  then have b: "bits 9007199254740992 = 54" by (simp add: n)
  have "float64 x = sgn x * \<bar>x\<bar>"
    by (simp add: float64_def Let_def b a)
  then show ?thesis by (simp add: mult_sgn_abs)
qed

lemma float64_sign: "(float64 x < 0) = (x < 0)"
proof (cases "bits (nat \<bar>x\<bar>) \<le> 53")
  case True
  then show ?thesis by (simp add: float64_def Let_def)
next
  case False
  define n where "n = bits (nat \<bar>x\<bar>)"
  define u :: int where "u = 2 ^ (n - 53)"
  define q where "q = \<bar>x\<bar> div u"
  define r where "r = \<bar>x\<bar> mod u"
  define m where "m = (if 2 * r < u \<or> (2 * r = u \<and> even q) then q else q + 1)"
  have pos: "0 < nat \<bar>x\<bar>"
  proof (rule ccontr)
    assume "\<not> 0 < nat \<bar>x\<bar>"
    then have "bits (nat \<bar>x\<bar>) = 0" by (simp add: bits.simps [of 0])
    with False show False by simp
  qed
  have "2 ^ (n - 1) \<le> nat \<bar>x\<bar>" using bits_lower [OF pos] by (simp add: n_def)
  then have "int (2 ^ (n - 1)) \<le> int (nat \<bar>x\<bar>)" by (simp only: of_nat_le_iff)
  then have big: "(2::int) ^ (n - 1) \<le> \<bar>x\<bar>" by simp
  have "u \<le> 2 ^ (n - 1)" unfolding u_def by (rule power_increasing) simp_all
  with big have ux: "u \<le> \<bar>x\<bar>" by simp
  have u0: "0 < u" by (simp add: u_def)
  have "u div u \<le> \<bar>x\<bar> div u" using ux u0 by (intro zdiv_mono1) simp_all
  then have q1: "1 \<le> q" using u0 by (simp add: q_def)
  have "q \<le> m" by (simp add: m_def)
  with q1 have "0 < m" by simp
  with u0 have m1: "0 < u * m" by simp
  have eq: "float64 x = sgn x * (u * m)"
    using False unfolding float64_def Let_def n_def u_def q_def r_def m_def by simp
  consider "x < 0" | "x = 0" | "0 < x" by linarith
  then show ?thesis
  proof cases
    case 1
    then have "float64 x = - (u * m)" by (simp add: eq)
    with m1 1 show ?thesis by simp
  next
    case 2
    with pos show ?thesis by simp
  next
    case 3
    then have "float64 x = u * m" by (simp add: eq)
    with m1 3 show ?thesis by simp
  qed
qed

lemma sint_diff_exact:
  "- (2 ^ 63) \<le> sint (a::int64) - sint b \<Longrightarrow> sint a - sint b < 2 ^ 63 \<Longrightarrow>
   sint (a - b) = sint a - sint b"
  by (simp add: sint_word_ariths signed_take_bit_int_eq_self)

lemma float64_error:
  assumes "53 < bits (nat \<bar>x\<bar>)"
  shows "2 * \<bar>float64 x - x\<bar> \<le> 2 ^ (bits (nat \<bar>x\<bar>) - 53)"
proof -
  define u :: int where "u = 2 ^ (bits (nat \<bar>x\<bar>) - 53)"
  define q where "q = \<bar>x\<bar> div u"
  define r where "r = \<bar>x\<bar> mod u"
  define m where "m = (if 2 * r < u \<or> (2 * r = u \<and> even q) then q else q + 1)"
  have u0: "0 < u" by (simp add: u_def)
  have r0: "0 \<le> r" and ru: "r < u" using u0 by (simp_all add: r_def)
  have a: "\<bar>x\<bar> = u * q + r" by (simp add: q_def r_def)
  have eq: "float64 x = sgn x * (u * m)"
    using assms unfolding float64_def Let_def u_def q_def r_def m_def by simp
  have "float64 x - x = sgn x * (u * m) - sgn x * \<bar>x\<bar>"
    by (simp add: eq mult_sgn_abs)
  also have "\<dots> = sgn x * (u * m - \<bar>x\<bar>)" by (simp add: algebra_simps)
  finally have "\<bar>float64 x - x\<bar> = \<bar>sgn x\<bar> * \<bar>u * m - \<bar>x\<bar>\<bar>" by (simp add: abs_mult)
  also have "\<dots> \<le> \<bar>u * m - \<bar>x\<bar>\<bar>" by (simp add: abs_sgn_eq)
  finally have le: "\<bar>float64 x - x\<bar> \<le> \<bar>u * m - \<bar>x\<bar>\<bar>" .
  have "2 * \<bar>u * m - \<bar>x\<bar>\<bar> \<le> u"
  proof (cases "2 * r < u \<or> (2 * r = u \<and> even q)")
    case True
    then have "m = q" by (simp add: m_def)
    then have "u * m - \<bar>x\<bar> = - r" by (simp add: a)
    with True r0 show ?thesis by auto
  next
    case False
    then have "m = q + 1" by (simp add: m_def)
    then have "u * m - \<bar>x\<bar> = u - r" by (simp add: a algebra_simps)
    with False ru show ?thesis by auto
  qed
  with le show ?thesis unfolding u_def by linarith
qed

lemma float64_int64_error:
  assumes "- (2 ^ 63) \<le> x" and "x < 2 ^ 63"
  shows "\<bar>float64 x - x\<bar> \<le> 512"
proof (cases "x = - (2 ^ 63)")
  case True
  have b: "bits 9223372036854775808 = 64"
    by (rule bits_eq [of 63, simplified]) simp_all
  show ?thesis by (simp add: True float64_def Let_def b)
next
  case False
  with assms have "nat \<bar>x\<bar> < 2 ^ 63" by simp
  then have n: "bits (nat \<bar>x\<bar>) \<le> 63" by (rule bits_le)
  show ?thesis
  proof (cases "bits (nat \<bar>x\<bar>) \<le> 53")
    case True
    then show ?thesis by (simp add: float64_def Let_def)
  next
    case False
    then have "2 * \<bar>float64 x - x\<bar> \<le> 2 ^ (bits (nat \<bar>x\<bar>) - 53)"
      by (intro float64_error) simp
    also have "\<dots> \<le> (2::int) ^ 10"
      using n by (intro power_increasing) simp_all
    finally show ?thesis by simp
  qed
qed


lemma Milliseconds_exact: "float64 (Milliseconds d) = sgn (sint d) * (\<bar>sint d\<bar> div 1000000)"
proof -
  have "- (2 ^ 63) \<le> sint d" "sint d < 2 ^ 63"
    using sint_ge [of d] sint_lt [of d] by simp_all
  then have "\<bar>sint d\<bar> \<le> 2 ^ 63" by simp
  then have "\<bar>sint d\<bar> div 1000000 \<le> 2 ^ 63 div 1000000" by (rule zdiv_mono1) simp
  then have "\<bar>sint d\<bar> div 1000000 \<le> 2 ^ 53" by simp
  moreover have "0 \<le> \<bar>sint d\<bar> div 1000000" by simp
  moreover have "\<bar>sgn (sint d) * (\<bar>sint d\<bar> div 1000000)\<bar> \<le> \<bar>\<bar>sint d\<bar> div 1000000\<bar>"
    by (simp add: abs_mult abs_sgn_eq)
  ultimately have "\<bar>sgn (sint d) * (\<bar>sint d\<bar> div 1000000)\<bar> \<le> 2 ^ 53"
    by simp
  then show ?thesis
    by (simp add: Milliseconds_def signed_divide_int_def float64_exact)
qed


text \<open>
  Claim C7, as the code has it. A check interval that is absent (zero) or not positive gives
  a ticker of 5 seconds; an interval of 1 to 9223372036 seconds gives a ticker of that many
  seconds; and every ticker that is made has a positive period. Beyond 9223372036 seconds
  the count of nanoseconds no longer fits 64 bits.
\<close>

theorem C7_interval_positive_in_range:
  "(sint cs \<le> 0 \<longrightarrow> CheckSecondToTicker cs 5 = Inr (5 * Second)) \<and>
   (0 < sint cs \<and> sint cs \<le> 9223372036 \<longrightarrow>
      CheckSecondToTicker cs 5 = Inr (cs * Second) \<and>
      sint (cs * Second) = sint cs * 1000000000) \<and>
   (\<forall>d. CheckSecondToTicker cs 5 = Inr d \<longrightarrow> 0 < sint d)"
  using sint_mul_Second [of cs]
  by (auto simp add: CheckSecondToTicker_def NewTicker_def Second_def Let_def split: if_splits)

theorem C7_interval_witness:
  "sint (0 :: int64) \<le> 0 \<and> CheckSecondToTicker 0 5 = Inr 5000000000 \<and>
   0 < sint (7 :: int64) \<and> sint (7 :: int64) \<le> 9223372036 \<and>
   CheckSecondToTicker 7 5 = Inr 7000000000 \<and> (0::int) < sint (7000000000 :: int64)"
  using C7_interval_positive_in_range [of 0] C7_interval_positive_in_range [of 7]
  by (simp add: Second_def)

text \<open>
  Claim C7 as stated fails: with \<^verbatim>\<open>check_second: 9223372037\<close> the product with
  \<^verbatim>\<open>time.Second\<close> wraps to a negative duration and \<^verbatim>\<open>NewTicker\<close> panics.
\<close>

theorem C7_overflow_counterexample:
  "CheckSecondToTicker 9223372037 5 = Inl ''non-positive interval for NewTicker''"
  by (simp add: CheckSecondToTicker_def NewTicker_def Second_def)

text \<open>
  Claim C8. Whenever the probed operation returns, with an error or without, the health probe
  records one health status (1 exactly when there was no error) and the measured duration
  \<open>duration\<close> (a count of nanoseconds), as its number of whole milliseconds, on the
  response-time gauge and on its histogram. For a duration that is not negative the recorded
  number \<open>m\<close> is the one with \<open>m\<close> ms \<open>\<le> duration <\<close> \<open>m + 1\<close> ms.
\<close>

theorem C8_health_probe_records_both:
  "HealthCheckOperation b endpointType (Inr err) duration snk =
     Inr (snk @
       [(NodeHealthStatus, [ChainName b, HostName b, endpointType],
           Set (if err = None then 1 else 0)),
        (EndpointResponseTime, [ChainName b, HostName b, endpointType],
           Set (sgn (sint duration) * (\<bar>sint duration\<bar> div 1000000))),
        (EndpointResponseTimeHistogram, [ChainName b, HostName b, endpointType],
           Observe (sgn (sint duration) * (\<bar>sint duration\<bar> div 1000000)))]) \<and>
   (0 \<le> sint duration \<longrightarrow>
      1000000 * (sgn (sint duration) * (\<bar>sint duration\<bar> div 1000000)) \<le> sint duration \<and>
      sint duration < 1000000 * (sgn (sint duration) * (\<bar>sint duration\<bar> div 1000000) + 1))"
proof -
  have rec: "HealthCheckOperation b endpointType (Inr err) duration snk =
     Inr (snk @
       [(NodeHealthStatus, [ChainName b, HostName b, endpointType],
           Set (if err = None then 1 else 0)),
        (EndpointResponseTime, [ChainName b, HostName b, endpointType],
           Set (sgn (sint duration) * (\<bar>sint duration\<bar> div 1000000))),
        (EndpointResponseTimeHistogram, [ChainName b, HostName b, endpointType],
           Observe (sgn (sint duration) * (\<bar>sint duration\<bar> div 1000000)))])"
    by (simp add: HealthCheckOperation_def RecordResponseTime_def RecordHealthStatus_def
          AddLabelValues_def Let_def Milliseconds_exact)
  have whole: "1000000 * (sgn k * (\<bar>k\<bar> div 1000000)) \<le> k \<and>
      k < 1000000 * (sgn k * (\<bar>k\<bar> div 1000000) + 1)" if "0 \<le> k" for k :: int
  proof (cases "k = 0")
    case True
    then show ?thesis by simp
  next
    case False
    with that have "sgn k = 1" and "\<bar>k\<bar> = k" by simp_all
    then show ?thesis by simp presburger
  qed
  from rec whole [of "sint duration"] show ?thesis by blast
qed

theorem C8_health_probe_witness:
  "0 \<le> sint (2500000 :: int64) \<and>
   HealthCheckOperation (fst (NewEvmCheckerImpl evm_test_conf dial_up world0)) ''block_retrieval''
       (Inr (Some ''timeout'')) 2500000 [] =
     Inr [(NodeHealthStatus, [''ethereum'', ''ethereum-01'', ''block_retrieval''], Set 0),
          (EndpointResponseTime, [''ethereum'', ''ethereum-01'', ''block_retrieval''], Set 2),
          (EndpointResponseTimeHistogram, [''ethereum'', ''ethereum-01'', ''block_retrieval''],
             Observe 2)]"
  using C8_health_probe_records_both
    [of "fst (NewEvmCheckerImpl evm_test_conf dial_up world0)" "''block_retrieval''"
        "Some ''timeout''" 2500000 "[]"]
  by (simp add: NewEvmCheckerImpl_def evm_updateClient_def evm_test_conf_def dial_up_def
        world0_def Let_def)

section \<open>Properties of package sched\<close>

text \<open>
  Claim C6. A second \<^verbatim>\<open>Stop()\<close> only logs that the controller is already stopped and
  leaves the flag set; a \<^verbatim>\<open>Start()\<close> after a \<^verbatim>\<open>Stop()\<close> only logs a warning, launches
  no goroutine and leaves the flag set. Neither call has a branch that panics.
\<close>

theorem C6_stop_twice_start_after_stop:
  "Stop b2 (Stop b1 (c, w)) =
     (fst (Stop b1 (c, w)),
      glog_add (Info, ''Controller is already stopped'', []) (snd (Stop b1 (c, w)))) \<and>
   stopped (fst (Stop b2 (Stop b1 (c, w)))) \<and>
   Start (Stop b1 (c, w)) =
     (fst (Stop b1 (c, w)),
      glog_add (Warning, ''Controller is already stopped, cannot start'', [])
        (snd (Stop b1 (c, w)))) \<and>
   stopped (fst (Start (Stop b1 (c, w)))) \<and>
   launched (fst (Start (Stop b1 (c, w)))) = launched c"
  by (simp add: Stop_def Start_def)

lemma evm_updateClient_glog: "glog (snd (evm_updateClient env (chain, w))) = glog w"
  by (simp add: evm_updateClient_def Let_def split: option.splits)

lemma evm_updateClient_HostName:
  "evm_HostName (Evm (fst (evm_updateClient env (chain, w)))) = evm_HostName (Evm chain)"
  by (simp add: evm_updateClient_def Let_def split: option.splits)

lemma NewEvmCheckerImpl_glog: "glog (snd (NewEvmCheckerImpl cf env w)) = glog w"
  by (simp add: NewEvmCheckerImpl_def Let_def evm_updateClient_glog)

lemma NewEvmCheckerImpl_HostName:
  "evm_HostName (Evm (fst (NewEvmCheckerImpl cf env w))) = evm_HostName cf"
  by (simp add: NewEvmCheckerImpl_def Let_def evm_updateClient_HostName)

lemma cometbft_updateClient_glog: "glog (snd (cometbft_updateClient env (chain, w))) = glog w"
  by (simp add: cometbft_updateClient_def Let_def split: option.splits)

lemma cometbft_updateClient_HostName:
  "cb_HostName (Cometbft (fst (cometbft_updateClient env (chain, w)))) =
     cb_HostName (Cometbft chain)"
  by (simp add: cometbft_updateClient_def Let_def split: option.splits)

lemma NewCometbftCheckerImpl_glog: "glog (snd (NewCometbftCheckerImpl cf env w)) = glog w"
  by (simp add: NewCometbftCheckerImpl_def Let_def cometbft_updateClient_glog)

lemma NewCometbftCheckerImpl_HostName:
  "cb_HostName (Cometbft (fst (NewCometbftCheckerImpl cf env w))) = cb_HostName cf"
  by (simp add: NewCometbftCheckerImpl_def Let_def cometbft_updateClient_HostName)

lemma skipped_from:
  "filter (\<lambda>j. (x # xs) ! (j - i) = None) [Suc i..<Suc i + length xs] =
   filter (\<lambda>j. xs ! (j - Suc i) = None) [Suc i..<Suc i + length xs]"
proof (rule filter_cong [OF refl])
  fix j
  assume "j \<in> set [Suc i..<Suc i + length xs]"
  then have "j - i = Suc (j - Suc i)" by auto
  then show "((x # xs) ! (j - i) = None) = (xs ! (j - Suc i) = None)" by simp
qed

lemma NewController_evm_hosts:
  "map GetHostName (checkers (fst (NewController_evm envs i xs cw))) =
     map GetHostName (checkers (fst cw)) @ map evm_HostName (present xs)"
  by (induction envs i xs cw rule: NewController_evm.induct)
     (simp_all add: present_def Let_def NewEvmCheckerImpl_HostName)

lemma NewController_cometbft_hosts:
  "map GetHostName (checkers (fst (NewController_cometbft envs i xs cw))) =
     map GetHostName (checkers (fst cw)) @ map cb_HostName (present xs)"
  by (induction envs i xs cw rule: NewController_cometbft.induct)
     (simp_all add: present_def Let_def NewCometbftCheckerImpl_HostName)

lemma NewController_evm_lines:
  "fmt \<noteq> ''Creating EVM checker for %s (%s)'' \<Longrightarrow>
   lines_with fmt (snd (NewController_evm envs i xs cw)) =
     lines_with fmt (snd cw) @
     filter (\<lambda>l. fst (snd l) = fmt)
       (map (\<lambda>j. (Error, ''EVM config[%d] is nil, skipping'', [N j]))
         (filter (\<lambda>j. xs ! (j - i) = None) [i..<i + length xs]))"
proof (induction envs i xs cw rule: NewController_evm.induct)
  case (1 envs i cw)
  then show ?case by simp
next
  case (2 envs i rest cw)
  have "[i..<i + length (None # rest)] = i # [Suc i..<Suc i + length rest]"
    by (simp add: upt_rec)
  then show ?case using 2 skipped_from [of None rest i]
    by (simp add: lines_with_def glog_add_def)
next
  case (3 envs i evmConf rest cw)
  have "[i..<i + length (Some evmConf # rest)] = i # [Suc i..<Suc i + length rest]"
    by (simp add: upt_rec)
  then show ?case using 3 skipped_from [of "Some evmConf" rest i]
    by (simp add: lines_with_def glog_add_def Let_def NewEvmCheckerImpl_glog)
qed

lemma NewController_cometbft_lines:
  "fmt \<noteq> ''Creating CometBFT checker for %s (%s)'' \<Longrightarrow>
   lines_with fmt (snd (NewController_cometbft envs i xs cw)) =
     lines_with fmt (snd cw) @
     filter (\<lambda>l. fst (snd l) = fmt)
       (map (\<lambda>j. (Error, ''CometBFT config[%d] is nil, skipping'', [N j]))
         (filter (\<lambda>j. xs ! (j - i) = None) [i..<i + length xs]))"
proof (induction envs i xs cw rule: NewController_cometbft.induct)
  case (1 envs i cw)
  then show ?case by simp
next
  case (2 envs i rest cw)
  have "[i..<i + length (None # rest)] = i # [Suc i..<Suc i + length rest]"
    by (simp add: upt_rec)
  then show ?case using 2 skipped_from [of None rest i]
    by (simp add: lines_with_def glog_add_def)
next
  case (3 envs i cometbftConf rest cw)
  have "[i..<i + length (Some cometbftConf # rest)] = i # [Suc i..<Suc i + length rest]"
    by (simp add: upt_rec)
  then show ?case using 3 skipped_from [of "Some cometbftConf" rest i]
    by (simp add: lines_with_def glog_add_def Let_def NewCometbftCheckerImpl_glog)
qed

lemma filter_fmt_same:
  "filter (\<lambda>l. fst (snd l) = fmt) (map (\<lambda>j. (sev, fmt, f j)) ys) =
     map (\<lambda>j. (sev, fmt, f j)) ys"
  by (induction ys) auto

lemma filter_fmt_other:
  "fmt \<noteq> fmt' \<Longrightarrow> filter (\<lambda>l. fst (snd l) = fmt) (map (\<lambda>j. (sev, fmt', f j)) ys) = []"
  by (induction ys) auto

text \<open>
  Claim C5. For every configuration, \<^verbatim>\<open>NewController\<close> returns a controller. It holds one
  checker for every entry that is not nil, the EVM ones first and each list in its order, so
  that their number is the number of such entries of both lists; and for every nil entry, and
  for nothing else, it has logged the line that says the entry is skipped, with the index of
  the entry. (The line is logged with \<^verbatim>\<open>glog.Errorf\<close>.)
\<close>

theorem C5_one_watcher_per_entry:
  "\<exists>c w'. NewController evm_envs cb_envs (Some cfg) w = Inr (c, w') \<and>
     length (checkers c) =
       length (present (cfg_Evm cfg)) + length (present (cfg_Cometbft cfg)) \<and>
     map GetHostName (checkers c) =
       map evm_HostName (present (cfg_Evm cfg)) @ map cb_HostName (present (cfg_Cometbft cfg)) \<and>
     lines_with ''EVM config[%d] is nil, skipping'' w' =
       lines_with ''EVM config[%d] is nil, skipping'' w @
       map (\<lambda>i. (Error, ''EVM config[%d] is nil, skipping'', [N i])) (skipped (cfg_Evm cfg)) \<and>
     lines_with ''CometBFT config[%d] is nil, skipping'' w' =
       lines_with ''CometBFT config[%d] is nil, skipping'' w @
       map (\<lambda>i. (Error, ''CometBFT config[%d] is nil, skipping'', [N i]))
         (skipped (cfg_Cometbft cfg))"
proof -
  define c0 where "c0 = \<lparr>checkers = [], conf = cfg, stopped = False, cancelled = False,
    launched = []\<rparr>"
  define cw1 where "cw1 = NewController_evm evm_envs 0 (cfg_Evm cfg) (c0, w)"
  define cw2 where "cw2 = NewController_cometbft cb_envs 0 (cfg_Cometbft cfg) cw1"
  define w' where "w' = glog_add (Info, ''Created %d checkers total'',
    [N (length (checkers (fst cw2)))]) (snd cw2)"
  have res: "NewController evm_envs cb_envs (Some cfg) w = Inr (fst cw2, w')"
    by (simp add: NewController_def Let_def c0_def cw1_def cw2_def w'_def)
  have hosts: "map GetHostName (checkers (fst cw2)) =
      map evm_HostName (present (cfg_Evm cfg)) @ map cb_HostName (present (cfg_Cometbft cfg))"
    by (simp add: cw2_def cw1_def c0_def NewController_cometbft_hosts NewController_evm_hosts)
  have len: "length (checkers (fst cw2)) =
      length (present (cfg_Evm cfg)) + length (present (cfg_Cometbft cfg))"
    using arg_cong [OF hosts, of length] by simp
  have l1: "lines_with ''EVM config[%d] is nil, skipping'' w' =
       lines_with ''EVM config[%d] is nil, skipping'' w @
       map (\<lambda>i. (Error, ''EVM config[%d] is nil, skipping'', [N i])) (skipped (cfg_Evm cfg))"
  proof -
    have "lines_with ''EVM config[%d] is nil, skipping'' w' =
        lines_with ''EVM config[%d] is nil, skipping'' (snd cw2)"
      by (simp add: w'_def lines_with_def glog_add_def)
    also have "\<dots> = lines_with ''EVM config[%d] is nil, skipping'' (snd cw1)"
      by (simp add: cw2_def NewController_cometbft_lines filter_fmt_other)
    also have "\<dots> = lines_with ''EVM config[%d] is nil, skipping'' w @
        map (\<lambda>i. (Error, ''EVM config[%d] is nil, skipping'', [N i])) (skipped (cfg_Evm cfg))"
      by (simp add: cw1_def NewController_evm_lines filter_fmt_same skipped_def)
    finally show ?thesis .
  qed
  have l2: "lines_with ''CometBFT config[%d] is nil, skipping'' w' =
       lines_with ''CometBFT config[%d] is nil, skipping'' w @
       map (\<lambda>i. (Error, ''CometBFT config[%d] is nil, skipping'', [N i]))
         (skipped (cfg_Cometbft cfg))"
  proof -
    have "lines_with ''CometBFT config[%d] is nil, skipping'' w' =
        lines_with ''CometBFT config[%d] is nil, skipping'' (snd cw2)"
      by (simp add: w'_def lines_with_def glog_add_def)
    also have "\<dots> = lines_with ''CometBFT config[%d] is nil, skipping'' (snd cw1) @
        map (\<lambda>i. (Error, ''CometBFT config[%d] is nil, skipping'', [N i]))
          (skipped (cfg_Cometbft cfg))"
      by (simp add: cw2_def NewController_cometbft_lines filter_fmt_same skipped_def)
    also have "lines_with ''CometBFT config[%d] is nil, skipping'' (snd cw1) =
        lines_with ''CometBFT config[%d] is nil, skipping'' w"
      by (simp add: cw1_def NewController_evm_lines filter_fmt_other)
    finally show ?thesis .
  qed
  from res hosts len l1 l2 show ?thesis by blast
qed

section \<open>Properties of a connection cycle\<close>

text \<open>
  Claim C4, as the code has it. When \<^verbatim>\<open>rpchttp.New\<close> succeeds and the status probe that
  follows fails, \<^verbatim>\<open>updateClient()\<close> records one failed connection attempt of type
  \<^verbatim>\<open>http\<close>, leaves the chain id and the node version as they were, and keeps the client
  it has just made in \<^verbatim>\<open>chain.client\<close>.
\<close>

theorem C4_failed_probe_keeps_client:
  "cometbft_updateClient (env\<lparr>new_ok := True, status_res := None\<rparr>) (chain, w) =
     (chain\<lparr>client := Some (fresh w)\<rparr>,
      w\<lparr>conns := conns w @ [fresh w], fresh := Suc (fresh w),
        sink := sink w @
          [(RPCConnectionAttempts, [ChainName chain, HostName chain, ''http'', ''fail''], Add 1)]\<rparr>)"
  by (simp add: cometbft_updateClient_def RecordConnectionAttempt_def AddLabelValues_def Let_def)

text \<open>
  Claim C4 as stated fails: after a successful connect and a failed status probe the checker
  of the test configuration holds the new client.
\<close>

theorem C4_client_retained_counterexample:
  "client (fst (NewCometbftCheckerImpl cometbft_test_conf (cb_up\<lparr>status_res := None\<rparr>) world0))
     = Some 0"
  by (simp add: run_defs)

section \<open>Properties of a block event\<close>

lemma delaySecond_exact:
  assumes "\<bar>sint now - sint t\<bar> \<le> 2 ^ 53"
  shows "delaySecond now t = sint now - sint t"
proof -
  from assms have "- (2 ^ 63) \<le> sint now - sint t" and "sint now - sint t < 2 ^ 63"
    by simp_all
  then have "sint (now - t) = sint now - sint t" by (rule sint_diff_exact)
  with assms show ?thesis by (simp add: delaySecond_def float64_exact)
qed

lemma delaySecond_negative:
  assumes "sint now < sint t" and "sint t - sint now \<le> 2 ^ 63"
  shows "delaySecond now t < 0"
proof -
  from assms have "- (2 ^ 63) \<le> sint now - sint t" and "sint now - sint t < 2 ^ 63"
    by simp_all
  then have "sint (now - t) = sint now - sint t" by (rule sint_diff_exact)
  with assms show ?thesis by (simp add: delaySecond_def float64_sign)
qed

lemma delaySecond_error: "\<bar>delaySecond now t - sint (now - t)\<bar> \<le> 512"
  unfolding delaySecond_def
  using sint_ge [of "now - t"] sint_lt [of "now - t"]
  by (intro float64_int64_error) simp_all

lemma delaySecond_rounds:
  "delaySecond 1700000000 13835058055188604616 = 4611686020220947456"
proof -
  have d: "sint (1700000000 - 13835058055188604616 :: int64) = 4611686020220947000"
    by simp
  have b: "bits 4611686020220947000 = 63"
    by (rule bits_eq [of 62, simplified]) simp_all
  show ?thesis
    by (simp add: delaySecond_def d float64_def Let_def b)
qed

lemma cometbft_on_event_delay:
  "delay_emissions (sink (cb_world (snd (cometbft_on_event (Some t) now st d s)))) =
     delay_emissions (sink (cb_world s)) @
     [(BlockProcessingDelay, [ChainName (cb_chain s), HostName (cb_chain s)],
         Set (delaySecond now t)),
      (BlockProcessingDelayHistogram, [ChainName (cb_chain s), HostName (cb_chain s)],
         Observe (delaySecond now t))]"
  by (simp add: cometbft_on_event_def cometbft_checkStatus_def HealthCheckOperation_def
      RecordResponseTime_def RecordHealthStatus_def RecordBlockProcessingDelay_def
      UpdateLastBlockTime_def AddLabelValues_def Let_def delay_emissions_def)

lemma evm_on_header_delay:
  "delay_emissions (sink (evm_world (snd (evm_on_header (Some t) now res d env s)))) =
     delay_emissions (sink (evm_world s)) @
     [(BlockProcessingDelay, [ChainName (evm_chain s), HostName (evm_chain s)],
         Set (delaySecond now t)),
      (BlockProcessingDelayHistogram, [ChainName (evm_chain s), HostName (evm_chain s)],
         Observe (delaySecond now t))]"
  by (simp add: evm_on_header_def checkGetBlockByNumber_def HealthCheckOperation_def
      RecordResponseTime_def RecordHealthStatus_def RecordBlockProcessingDelay_def
      UpdateLastBlockTime_def AddLabelValues_def Let_def delay_emissions_def)

text \<open>
  Claim C2, as the code has it. A block event with timestamp \<open>t\<close>, received when the clock
  reads \<open>now\<close>, sends one value to the delay gauge and the same value to the delay histogram:
  the \<^verbatim>\<open>float64\<close> of the 64-bit difference \<open>now - t\<close>, read as a signed number. The value
  is the difference of the two readings whenever that is at most \<open>2\<^sup>5\<^sup>3\<close> in size. It is
  not clamped: it is negative exactly when the 64-bit difference is, so whenever the
  timestamp is later than the clock by at most \<open>2\<^sup>6\<^sup>3\<close>. A larger difference is rounded
  to 53 significant bits, which moves it by at most 512, as for the header time
  13835058055188604616 of an EVM block.
\<close>

theorem C2_delay_is_the_unclamped_difference:
  "delay_emissions (sink (cb_world (snd (cometbft_on_event (Some t) now st d s)))) =
     delay_emissions (sink (cb_world s)) @
     [(BlockProcessingDelay, [ChainName (cb_chain s), HostName (cb_chain s)],
         Set (delaySecond now t)),
      (BlockProcessingDelayHistogram, [ChainName (cb_chain s), HostName (cb_chain s)],
         Observe (delaySecond now t))] \<and>
   delay_emissions (sink (evm_world (snd (evm_on_header (Some t) now res d env s')))) =
     delay_emissions (sink (evm_world s')) @
     [(BlockProcessingDelay, [ChainName (evm_chain s'), HostName (evm_chain s')],
         Set (delaySecond now t)),
      (BlockProcessingDelayHistogram, [ChainName (evm_chain s'), HostName (evm_chain s')],
         Observe (delaySecond now t))] \<and>
   (\<bar>sint now - sint t\<bar> \<le> 2 ^ 53 \<longrightarrow> delaySecond now t = sint now - sint t) \<and>
   (delaySecond now t < 0) = (sint (now - t) < 0) \<and>
   (sint now < sint t \<and> sint t - sint now \<le> 2 ^ 63 \<longrightarrow> delaySecond now t < 0) \<and>
   \<bar>delaySecond now t - sint (now - t)\<bar> \<le> 512 \<and>
   delaySecond 1700000000 13835058055188604616 = 4611686020220947456"
proof -
  have "(delaySecond now t < 0) = (sint (now - t) < 0)"
    by (simp add: delaySecond_def float64_sign)
  then show ?thesis
    using cometbft_on_event_delay [of t now st d s] evm_on_header_delay [of t now res d env s']
      delaySecond_exact [of now t] delaySecond_negative [of now t] delaySecond_rounds
      delaySecond_error [of now t]
    by blast
qed

theorem C2_delay_witness:
  "\<bar>sint (1700000002 :: int64) - sint (1700000000 :: int64)\<bar> \<le> 2 ^ 53 \<and>
   delaySecond 1700000002 1700000000 = 2 \<and>
   sint (5 :: int64) < sint (10 :: int64) \<and>
   sint (10 :: int64) - sint (5 :: int64) \<le> 2 ^ 63 \<and>
   delaySecond 5 10 < 0"
  using C2_delay_is_the_unclamped_difference [of 1700000000 1700000002]
    C2_delay_is_the_unclamped_difference [of 10 5]
  by simp

text \<open>
  Claim C2 as stated fails: a block whose timestamp is 10 while the local clock reads 5 (a
  clock that is behind the node's) is recorded with the delay -5.
\<close>

theorem C2_negative_delay_counterexample:
  "delay_emissions (sink (cb_world (snd (cometbft_subscribe cb_up [CbEvent (Some 10) 5 None 0]
      (NewCometbftCheckerImpl cometbft_test_conf cb_up world0))))) =
     [(BlockProcessingDelay, [''cosmos'', ''test-node-01''], Set (- 5)),
      (BlockProcessingDelayHistogram, [''cosmos'', ''test-node-01''], Observe (- 5))]"
  by (simp add: run_defs delay_emissions_def float64_exact)

lemma gauge_value_append:
  "gauge_value (xs @ ys) m ls x = gauge_value ys m ls (gauge_value xs m ls x)"
  by (induction xs m ls x rule: gauge_value.induct) simp_all

text \<open>
  What the code does to the last-block gauge: every block event sets the child of the
  checker's labels to 0, and every tick of the block lifetime updater adds 1 to the child of
  a checker.
\<close>

lemma cometbft_block_resets_gauge:
  "gauge_value (sink (cb_world (snd (cometbft_on_event (Some t) now st d s))))
     BlockLastUpdateTime
     [ChainName (cb_chain s), HostName (cb_chain s), ChainId (cb_chain s),
      NodeVersion (cb_chain s), ProtocolName (cb_chain s)] x = 0"
  by (simp add: cometbft_on_event_def cometbft_checkStatus_def HealthCheckOperation_def
      RecordResponseTime_def RecordHealthStatus_def RecordBlockProcessingDelay_def
      UpdateLastBlockTime_def AddLabelValues_def AddLabelValuesWithInfo_def Let_def
      gauge_value_append)

lemma evm_block_resets_gauge:
  "gauge_value (sink (evm_world (snd (evm_on_header (Some t) now res d env s))))
     BlockLastUpdateTime
     [ChainName (evm_chain s), HostName (evm_chain s), ChainId (evm_chain s),
      NodeVersion (evm_chain s), ProtocolName (evm_chain s)] x = 0"
  by (simp add: evm_on_header_def checkGetBlockByNumber_def HealthCheckOperation_def
      RecordResponseTime_def RecordHealthStatus_def RecordBlockProcessingDelay_def
      UpdateLastBlockTime_def AddLabelValues_def AddLabelValuesWithInfo_def Let_def
      gauge_value_append)

lemma heartbeat_increments_gauge:
  "gauge_value (sink (UpdateBlockLifetime_tick [checker] w)) BlockLastUpdateTime
     [GetChainName checker, GetHostName checker, GetChainId checker, GetNodeVersion checker,
      GetProtocolName checker] x =
   gauge_value (sink w) BlockLastUpdateTime
     [GetChainName checker, GetHostName checker, GetChainId checker, GetNodeVersion checker,
      GetProtocolName checker] x + 1"
  by (simp add: UpdateBlockLifetime_tick_def gauge_value_append)

text \<open>
  Claim C9 at a failing input: the EVM watcher of the test configuration, connected and
  subscribed, receives a header with timestamp 1700000000 while the clock reads 1700000002.
  The last-block gauge of its labels then reads 0, not the timestamp of the block, and a tick
  of the block lifetime updater makes it 1.
\<close>

theorem C9_gauge_is_reset_not_a_timestamp:
  "gauge_value (sink (evm_world (snd (evm_subscribe evm_up
       [EvmHeader (Some 1700000000) 1700000002 None 2500000 evm_up]
       (NewEvmCheckerImpl evm_test_conf dial_up world0)))))
     BlockLastUpdateTime [''ethereum'', ''ethereum-01'', ''1'', ''Geth/v1.13.5'', []] 0 = 0 \<and>
   gauge_value (sink (UpdateBlockLifetime_tick
       [EvmChecker (evm_chain (snd (evm_subscribe evm_up
          [EvmHeader (Some 1700000000) 1700000002 None 2500000 evm_up]
          (NewEvmCheckerImpl evm_test_conf dial_up world0))))]
       (evm_world (snd (evm_subscribe evm_up
          [EvmHeader (Some 1700000000) 1700000002 None 2500000 evm_up]
          (NewEvmCheckerImpl evm_test_conf dial_up world0))))))
     BlockLastUpdateTime [''ethereum'', ''ethereum-01'', ''1'', ''Geth/v1.13.5'', []] 0 = 1"
  by (simp add: run_defs UpdateBlockLifetime_tick_def)

section \<open>Properties of the watch loops\<close>

text \<open>Inside the CometBFT loop only the cancellation makes \<^verbatim>\<open>subscribe()\<close> return.\<close>

lemma cometbft_loop_returns_on_cancel_only:
  "fst (cometbft_loop evs s) = Returned \<Longrightarrow> CbCtxDone \<in> set evs"
proof (induction evs s rule: cometbft_loop.induct)
  case (3 hdr now st duration es s)
  then show ?case
    by (auto simp: cometbft_on_event_def Let_def split: if_splits option.splits sum.splits prod.splits)
qed simp_all


text \<open>
  Claim C1 at two failing inputs. The CometBFT watcher of the test configuration for which
  \<^verbatim>\<open>rpchttp.New\<close> returned an error when the checker was made (as it does for a URL it
  cannot parse) has no client; its \<^verbatim>\<open>subscribe()\<close> returns before the loop, whatever
  events would follow and without any cancellation. The same happens when the client was
  made and the first \<^verbatim>\<open>Start()\<close> or \<^verbatim>\<open>Subscribe\<close> fails, as for a node that cannot
  be reached.
\<close>

theorem C1_failed_connect_leaves_the_loop:
  "fst (cometbft_subscribe env evs (NewCometbftCheckerImpl cometbft_test_conf cb_down world0))
     = Returned \<and>
   fst (cometbft_subscribe cb_down evs (NewCometbftCheckerImpl cometbft_test_conf cb_up world0))
     = Returned"
  by (simp add: run_defs)

text \<open>
  Claim C10 at three failing inputs, for the EVM watcher of the test configuration: the
  WebSocket dial fails from the start (the node cannot be reached), so no subscription is made
  and \<^verbatim>\<open>sub\<close> is nil when the \<^verbatim>\<open>select\<close> is entered; the subscription breaks and
  the new subscription fails when the watcher reconnects, with the same effect one iteration
  later; \<^verbatim>\<open>chain.http\<close> is nil (the HTTP dial returned an error, as for a URL it
  rejects) and a header arrives, so the block-number probe runs on a nil HTTP client. Each
  run ends in a nil-pointer panic.
\<close>

theorem C10_nil_subscription_and_nil_http_panic:
  "fst (evm_subscribe evm_down evs (NewEvmCheckerImpl evm_test_conf dial_down world0))
     = Panicked nil_deref \<and>
   fst (evm_subscribe evm_up (EvmSubErr False None evm_down # evs)
          (NewEvmCheckerImpl evm_test_conf dial_up world0))
     = Panicked nil_deref \<and>
   fst (evm_subscribe evm_up (EvmHeader (Some t) now res d env # evs)
          (NewEvmCheckerImpl evm_test_conf (dial_up\<lparr>http_dial_ok := False\<rparr>) world0))
     = Panicked nil_deref"
  by (cases evs) (simp_all add: run_defs)

text \<open>
  What the two loops do release, for a watcher that is alone in its world: the EVM loop keeps
  at most one subscription open and none after the return on cancellation, and the deferred
  function of the CometBFT \<^verbatim>\<open>subscribe()\<close> releases the client and its subscriptions on
  every return.
\<close>

lemma evm_updateClient_subs: "subs (snd (evm_updateClient env (chain, w))) = subs w"
  by (simp add: evm_updateClient_def Let_def split: option.splits)

lemma with_client_sub_inv:
  "sub_inv s \<Longrightarrow> sub_inv (with_client s (evm_updateClient env (evm_chain s, evm_world s)))"
  by (simp add: sub_inv_def with_client_def evm_updateClient_subs)

lemma with_client_fields:
  "sub (with_client s cw) = sub s" "evm_chain (with_client s cw) = fst cw"
  by (simp_all add: with_client_def)

lemma subscribeNewHead_sub_inv:
  "sub_inv s \<Longrightarrow> sub s = None \<Longrightarrow> sub_inv (snd (subscribeNewHead ok s))"
  by (simp add: sub_inv_def subscribeNewHead_def Let_def split: option.splits)

lemma evm_ensureSubscription_sub_inv:
  assumes "sub_inv s"
  shows "sub_inv (evm_ensureSubscription env s)"
proof -
  define s1 where "s1 = (if ws (evm_chain s) = None
                then with_client s (evm_updateClient (dial1 env) (evm_chain s, evm_world s))
                else s)"
  define s2 where "s2 = (if ws (evm_chain s1) \<noteq> None \<and> \<not> chainid_ok env
                then with_client s1 (evm_updateClient (dial2 env) (evm_chain s1, evm_world s1))
                else s1)"
  have i1: "sub_inv s1" using assms by (simp add: s1_def with_client_sub_inv)
  have i2: "sub_inv s2" using i1 by (simp add: s2_def with_client_sub_inv)
  have "evm_ensureSubscription env s =
      (if ws (evm_chain s2) \<noteq> None \<and> sub s2 = None then snd (subscribeNewHead (sub_ok env) s2)
       else s2)"
    by (simp only: evm_ensureSubscription_def s1_def s2_def Let_def)
  moreover have "sub_inv (if ws (evm_chain s2) \<noteq> None \<and> sub s2 = None
      then snd (subscribeNewHead (sub_ok env) s2) else s2)"
    using i2 subscribeNewHead_sub_inv [of s2] by simp
  ultimately show ?thesis by simp
qed

lemma Unsubscribe_sub_inv:
  "sub_inv s \<Longrightarrow> sub_inv (Unsubscribe s) \<and> subs (evm_world (Unsubscribe s)) = []"
  by (auto simp: sub_inv_def Unsubscribe_def split: option.splits)

lemma evm_reconnect_sub_inv: "sub_inv s \<Longrightarrow> sub_inv (evm_reconnect env s)"
  by (simp add: evm_reconnect_def Let_def evm_ensureSubscription_sub_inv with_client_sub_inv
      Unsubscribe_sub_inv)

lemma evm_on_header_sub_inv:
  assumes "sub_inv s"
  shows "sub_inv (snd (evm_on_header hdr now res d env s))"
proof (cases hdr)
  case None
  then show ?thesis using evm_reconnect_sub_inv [OF assms, of env]
    by (simp add: evm_on_header_def)
next
  case (Some t)
  then show ?thesis using assms
    by (auto simp: evm_on_header_def Let_def sub_inv_def checkGetBlockByNumber_def
          HealthCheckOperation_def split: sum.splits if_splits)
qed

lemma evm_step_sub_inv: "sub_inv s \<Longrightarrow> sub_inv (snd (evm_step e s))"
  by (cases e)
     (simp_all add: evm_step_def evm_on_header_sub_inv evm_reconnect_sub_inv
        evm_ensureSubscription_sub_inv with_client_sub_inv Unsubscribe_sub_inv)

lemma evm_on_header_not_Returned: "fst (evm_on_header hdr now res d env s) \<noteq> Some Returned"
  by (cases hdr) (auto simp: evm_on_header_def Let_def split: sum.splits)

lemma evm_step_Returned:
  "sub_inv s \<Longrightarrow> fst (evm_step e s) = Some Returned \<Longrightarrow> subs (evm_world (snd (evm_step e s))) = []"
  by (cases e)
     (auto simp: evm_step_def Unsubscribe_sub_inv evm_on_header_not_Returned split: if_splits)

lemma evm_loop_sub_inv:
  "sub_inv s \<Longrightarrow> sub_inv (snd (evm_loop evs s)) \<and>
     (fst (evm_loop evs s) = Returned \<longrightarrow> subs (evm_world (snd (evm_loop evs s))) = [])"
proof (induction evs arbitrary: s)
  case Nil
  then show ?case by simp
next
  case (Cons e es)
  show ?case
  proof (cases "sub s = None")
    case True
    with Cons.prems show ?thesis by simp
  next
    case False
    obtain r s' where st: "evm_step e s = (r, s')" by (cases "evm_step e s")
    have inv': "sub_inv s'" using evm_step_sub_inv [OF Cons.prems, of e] st by simp
    show ?thesis
    proof (cases r)
      case None
      then have "evm_loop (e # es) s = evm_loop es s'" by (simp add: False st)
      with Cons.IH [OF inv'] show ?thesis by simp
    next
      case (Some out)
      then have "evm_loop (e # es) s = (out, s')" by (simp add: False st)
      with Some st inv' evm_step_Returned [OF Cons.prems, of e] show ?thesis by simp
    qed
  qed
qed

lemma evm_subscribe_one_subscription:
  assumes "subs w = []"
  shows "subs (evm_world (snd (evm_subscribe env evs (chain, w)))) =
           held (sub (snd (evm_subscribe env evs (chain, w)))) \<and>
         (fst (evm_subscribe env evs (chain, w)) = Returned \<longrightarrow>
            subs (evm_world (snd (evm_subscribe env evs (chain, w)))) = [])"
proof -
  define s0 where "s0 = \<lparr>evm_chain = chain, sub = None, headers = False, evm_world = w\<rparr>"
  have i0: "sub_inv s0" using assms by (simp add: sub_inv_def s0_def)
  show ?thesis
  proof (cases "CheckSecondToTicker (evm_CheckSecond (Evm chain)) 5")
    case (Inl p)
    then show ?thesis using assms by (simp add: evm_subscribe_def)
  next
    case (Inr t)
    then have eq: "evm_subscribe env evs (chain, w) =
        evm_loop evs (evm_ensureSubscription env s0)"
      by (simp add: evm_subscribe_def s0_def)
    show ?thesis
      unfolding eq
      using evm_loop_sub_inv [OF evm_ensureSubscription_sub_inv [OF i0], of evs env]
      unfolding sub_inv_def .
  qed
qed

lemma cometbft_ensureSubscription_client_inv:
  "client_inv s \<Longrightarrow> client_inv (snd (cometbft_ensureSubscription env s))"
  by (auto simp: client_inv_def cometbft_ensureSubscription_def startAndSubscribe_def
        split: option.splits)

lemma cometbft_updateClient_client_inv:
  assumes "client_inv s" and "client (cb_chain s) = None"
    and "cometbft_updateClient env (cb_chain s, cb_world s) = (chain, w)"
  shows "client_inv (s\<lparr>cb_chain := chain, cb_world := w\<rparr>)"
  using assms
  by (auto simp: client_inv_def cometbft_updateClient_def Let_def split: if_splits option.splits)

lemma cometbft_on_tick_client_inv:
  assumes "client_inv s"
  shows "client_inv (cometbft_on_tick running env s)"
proof (cases "client (cb_chain s) = None")
  case True
  obtain chain w where u: "cometbft_updateClient env (cb_chain s, cb_world s) = (chain, w)"
    by (cases "cometbft_updateClient env (cb_chain s, cb_world s)")
  show ?thesis
    using cometbft_ensureSubscription_client_inv
            [OF cometbft_updateClient_client_inv [OF assms True u], of env]
    by (simp add: cometbft_on_tick_def True u)
next
  case False
  show ?thesis
    using cometbft_ensureSubscription_client_inv [OF assms, of env]
    by (simp add: cometbft_on_tick_def False assms)
qed

lemma cometbft_on_event_client_inv:
  "client_inv s \<Longrightarrow> client_inv (snd (cometbft_on_event hdr now st d s))"
  by (auto simp: client_inv_def cometbft_on_event_def cometbft_checkStatus_def
        HealthCheckOperation_def Let_def split: option.splits sum.splits if_splits)

lemma cometbft_loop_client_inv:
  "client_inv s \<Longrightarrow> client_inv (snd (cometbft_loop evs s))"
proof (induction evs s rule: cometbft_loop.induct)
  case (3 hdr now st duration es s)
  obtain r s' where st: "cometbft_on_event hdr now st duration s = (r, s')"
    by (cases "cometbft_on_event hdr now st duration s")
  have inv': "client_inv s'"
    using cometbft_on_event_client_inv [OF "3.prems", of hdr now st duration] st by simp
  show ?case
  proof (cases "eventCh s")
    case False
    with 3 show ?thesis by simp
  next
    case True
    show ?thesis
    proof (cases r)
      case None
      have "client_inv (snd (cometbft_loop es s'))"
        using "3.IH"(2) True st None inv' by auto
      then show ?thesis by (simp add: True st None)
    next
      case (Some out)
      then show ?thesis using inv' by (simp add: True st)
    qed
  qed
next
  case (4 running env es s)
  then show ?case by (simp add: cometbft_on_tick_client_inv)
qed simp_all

lemma removeAll_only:
  "set xs \<subseteq> {x} \<Longrightarrow> removeAll x xs = []"
  by (induction xs) auto

lemma cometbft_deferred_releases:
  "client_inv s \<Longrightarrow>
   conns (cb_world (cometbft_deferred s)) = [] \<and> subs (cb_world (cometbft_deferred s)) = []"
  by (auto simp: client_inv_def cometbft_deferred_def removeAll_only split: option.splits)

lemma cometbft_subscribe_releases_on_return:
  assumes "conns w = held (client chain)" and "set (subs w) \<subseteq> set (conns w)"
  shows "(fst (cometbft_subscribe env evs (chain, w)) = Blocked \<longrightarrow>
            conns (cb_world (snd (cometbft_subscribe env evs (chain, w)))) =
              held (client (cb_chain (snd (cometbft_subscribe env evs (chain, w)))))) \<and>
         (fst (cometbft_subscribe env evs (chain, w)) = Returned \<longrightarrow>
            conns (cb_world (snd (cometbft_subscribe env evs (chain, w)))) = [] \<and>
            subs (cb_world (snd (cometbft_subscribe env evs (chain, w)))) = [])"
proof -
  define s0 where "s0 = \<lparr>cb_chain = chain, eventCh = False, cb_world = w\<rparr>"
  have i0: "client_inv s0" using assms by (simp add: client_inv_def s0_def)
  obtain err s1 where e: "cometbft_ensureSubscription env s0 = (err, s1)"
    by (cases "cometbft_ensureSubscription env s0")
  have i1: "client_inv s1" using cometbft_ensureSubscription_client_inv [OF i0, of env] e by simp
  obtain out s2 where l: "cometbft_loop evs s1 = (out, s2)"
    by (cases "cometbft_loop evs s1")
  have i2: "client_inv s2" using cometbft_loop_client_inv [OF i1, of evs] l by simp
  have b: "conns (cb_world s2) = held (client (cb_chain s2))"
    using i2 by (simp add: client_inv_def)
  show ?thesis
    using b cometbft_deferred_releases [OF i1] cometbft_deferred_releases [OF i2]
    by (auto simp: cometbft_subscribe_def s0_def [symmetric] e l Let_def
          split: sum.splits option.splits outcome.splits)
qed

text \<open>
  Claim C3 at a failing input. The EVM watcher of the test configuration is connected
  (clients 0 and 1) and subscribed; at a tick the health check of the WebSocket client fails
  and \<^verbatim>\<open>updateClient()\<close> dials again (clients 3 and 4) without closing the clients it
  replaces; the watcher then returns on the cancellation, and all four connections are still
  open. The CometBFT watcher of the test configuration, connected and subscribed, returns on
  the cancellation with its client and subscription released by the deferred function.
\<close>

theorem C3_replaced_connections_stay_open:
  "fst (evm_subscribe evm_up [EvmTick (evm_up\<lparr>chainid_ok := False\<rparr>), EvmCtxDone]
          (NewEvmCheckerImpl evm_test_conf dial_up world0)) = Returned \<and>
   ws (evm_chain (snd (evm_subscribe evm_up
          [EvmTick (evm_up\<lparr>chainid_ok := False\<rparr>), EvmCtxDone]
          (NewEvmCheckerImpl evm_test_conf dial_up world0)))) = Some 3 \<and>
   http (evm_chain (snd (evm_subscribe evm_up
          [EvmTick (evm_up\<lparr>chainid_ok := False\<rparr>), EvmCtxDone]
          (NewEvmCheckerImpl evm_test_conf dial_up world0)))) = Some 4 \<and>
   conns (evm_world (snd (evm_subscribe evm_up
          [EvmTick (evm_up\<lparr>chainid_ok := False\<rparr>), EvmCtxDone]
          (NewEvmCheckerImpl evm_test_conf dial_up world0)))) = [0, 1, 3, 4] \<and>
   fst (cometbft_subscribe cb_up [CbTick True cb_up, CbCtxDone]
          (NewCometbftCheckerImpl cometbft_test_conf cb_up world0)) = Returned \<and>
   conns (cb_world (snd (cometbft_subscribe cb_up [CbTick True cb_up, CbCtxDone]
          (NewCometbftCheckerImpl cometbft_test_conf cb_up world0)))) = [] \<and>
   subs (cb_world (snd (cometbft_subscribe cb_up [CbTick True cb_up, CbCtxDone]
          (NewCometbftCheckerImpl cometbft_test_conf cb_up world0)))) = []"
  by (simp add: run_defs)

end
